theory Spec2Isabelle
  imports Complex_Main
begin

section \<open>JavaScript values as the server sees them\<close>

text \<open>
  Every upstream payload reaches the server through \<open>getJSON\<close>, which returns
  \<open>normalizeJSON(res.data)\<close>: a parsed JSON value, or the raw string of a body that does
  not parse. \<open>jsval\<close> is the type of such values. A string is the list of its UTF-16 code
  units. An object is the list of its members in the order of the JSON text; a key that
  occurs twice is read as \<open>JSON.parse\<close> reads it (the last member wins, see \<open>lookup\<close>).

  A number is an IEEE 754 double. \<open>jsnum\<close> keeps the three special values apart and
  represents a finite double by the real number it denotes, with the two zeros identified
  (the code only adds, subtracts, compares and tests numbers, and none of these tells
  \<open>+0\<close> from \<open>-0\<close>). Every number that the code computes, by \<open>+\<close>, by \<open>-\<close> or by
  reading a numeric literal, is rounded to the nearest double by \<open>to_double\<close>.
\<close>

datatype jsnum = Fin real | PInf | NInf | NaN

type_synonym jsstring = "nat list"

datatype jsval =
    JUndefined
  | JNull
  | JBool bool
  | JNum jsnum
  | JString jsstring
  | JArr "jsval list"
  | JObject "(jsstring \<times> jsval) list"

text \<open>
  The code unit of an ASCII character, the string of an ASCII text, and the values
  written with them: \<open>JStr ''abc''\<close> is the string \<open>"abc"\<close>, and \<open>JObj\<close> an object whose
  keys are ASCII.
\<close>

definition cu :: "char \<Rightarrow> nat" where
  "cu c = of_char c"

definition ascii :: "string \<Rightarrow> jsstring" where
  "ascii s = map cu s"

definition JStr :: "string \<Rightarrow> jsval" where
  "JStr s = JString (ascii s)"

definition JObj :: "(string \<times> jsval) list \<Rightarrow> jsval" where
  "JObj members = JObject (map (\<lambda>(k, v). (ascii k, v)) members)"

text \<open>
  \<open>TypeError\<close> is what the engine raises on a property read from \<open>null\<close> or
  \<open>undefined\<close> and on an object that cannot be converted to a primitive;
  \<open>UpstreamError\<close> is the \<open>Error\<close> that \<open>getJSON\<close> throws, with its message.
\<close>

datatype error = TypeError | UpstreamError string

definition bindE :: "error + 'a \<Rightarrow> ('a \<Rightarrow> error + 'b) \<Rightarrow> error + 'b" where
  "bindE m f = (case m of Inl e \<Rightarrow> Inl e | Inr x \<Rightarrow> f x)"

subsection \<open>Rounding to the nearest double\<close>

text \<open>\<open>bits n\<close> is the length of the binary numeral of a positive integer \<open>n\<close>.\<close>

function bits_from :: "int \<Rightarrow> int \<Rightarrow> int" where
  "bits_from k n = (if n \<le> 0 then k else bits_from (k + 1) (n div 2))"
  by pat_completeness auto
termination
  by (relation "measure (\<lambda>(k, n). nat n)") auto

declare bits_from.simps [simp del]

definition bits :: "int \<Rightarrow> int" where
  "bits n = bits_from 0 n"

definition pow2 :: "int \<Rightarrow> real" where
  "pow2 e = (if 0 \<le> e then 2 ^ nat e else 1 / 2 ^ nat (- e))"

text \<open>
  The exponent \<open>e\<close> of a positive real \<open>a\<close>: \<open>2 ^ e \<le> a < 2 ^ (e + 1)\<close>. Below 1 it is
  read off the reciprocal \<open>r = 1 / a\<close> and the bit length \<open>b\<close> of its integer part.
\<close>

definition small_exponent :: "real \<Rightarrow> int \<Rightarrow> int" where
  "small_exponent r b = (if r = pow2 (b - 1) then 1 - b else - b)"

definition binary_exponent :: "real \<Rightarrow> int" where
  "binary_exponent a =
     (if 1 \<le> a then bits \<lfloor>a\<rfloor> - 1 else small_exponent (1 / a) (bits \<lfloor>1 / a\<rfloor>))"

text \<open>
  The nearest integer, the even one of two that are equally near; \<open>round_from y f\<close>
  rounds \<open>y\<close> given its floor \<open>f\<close>.
\<close>

definition round_from :: "real \<Rightarrow> int \<Rightarrow> int" where
  "round_from y f =
     (if y - of_int f < 1 / 2 then f
      else if 1 / 2 < y - of_int f then f + 1
      else if even f then f else f + 1)"

definition round_half_even :: "real \<Rightarrow> int" where
  "round_half_even y = round_from y \<lfloor>y\<rfloor>"

text \<open>
  A double has 53 significant bits, so the doubles around a positive real of exponent
  \<open>e\<close> are the multiples of \<open>2 ^ (e - 52)\<close>; below \<open>2 ^ -1022\<close> (the subnormal range)
  they are the multiples of \<open>2 ^ -1074\<close>. \<open>nearest a\<close> is the multiple nearest to \<open>a\<close>,
  ties to even.
\<close>

definition quantum :: "real \<Rightarrow> real" where
  "quantum a = pow2 (max (binary_exponent a - 52) (- 1074))"

definition nearest_multiple :: "real \<Rightarrow> real \<Rightarrow> real" where
  "nearest_multiple q a = of_int (round_half_even (a / q)) * q"

definition nearest :: "real \<Rightarrow> real" where
  "nearest a = nearest_multiple (quantum a) a"

text \<open>
  Rounding to nearest, ties to even: a result of magnitude \<open>2 ^ 1024\<close> or more overflows
  to an infinity, and a result that rounds to zero is zero. \<open>with_sign x m\<close> is the
  double of magnitude \<open>m\<close> and of the sign of \<open>x\<close>.
\<close>

definition with_sign :: "real \<Rightarrow> real \<Rightarrow> jsnum" where
  "with_sign x m =
     (if 2 ^ 1024 \<le> m then (if 0 < x then PInf else NInf)
      else Fin (if 0 < x then m else - m))"

definition to_double :: "real \<Rightarrow> jsnum" where
  "to_double x = (if x = 0 then Fin 0 else with_sign x (nearest \<bar>x\<bar>))"

subsection \<open>Arithmetic and comparison of numbers\<close>

fun jsneg :: "jsnum \<Rightarrow> jsnum" where
  "jsneg (Fin a) = Fin (- a)"
| "jsneg PInf = NInf"
| "jsneg NInf = PInf"
| "jsneg NaN = NaN"

text \<open>\<open>a + b\<close> on two numbers: the exact sum of two finite numbers, rounded.\<close>

fun jsadd :: "jsnum \<Rightarrow> jsnum \<Rightarrow> jsnum" where
  "jsadd NaN _ = NaN"
| "jsadd _ NaN = NaN"
| "jsadd (Fin a) (Fin b) = to_double (a + b)"
| "jsadd PInf NInf = NaN"
| "jsadd NInf PInf = NaN"
| "jsadd PInf _ = PInf"
| "jsadd _ PInf = PInf"
| "jsadd NInf _ = NInf"
| "jsadd _ NInf = NInf"

text \<open>\<open>a - b\<close> on two numbers: negation is exact, so the difference is the rounded sum
  of \<open>a\<close> and \<open>-b\<close>.\<close>

definition jssub :: "jsnum \<Rightarrow> jsnum \<Rightarrow> jsnum" where
  "jssub a b = jsadd a (jsneg b)"

text \<open>\<open>a < b\<close>: false as soon as one side is \<open>NaN\<close>.\<close>

fun js_lt :: "jsnum \<Rightarrow> jsnum \<Rightarrow> bool" where
  "js_lt NaN _ = False"
| "js_lt _ NaN = False"
| "js_lt (Fin a) (Fin b) = (a < b)"
| "js_lt _ NInf = False"
| "js_lt PInf _ = False"
| "js_lt NInf _ = True"
| "js_lt _ PInf = True"

text \<open>\<open>a > b\<close> and \<open>a <= b\<close>. With \<open>NaN\<close> on a side both are false, so \<open>a <= b\<close> is
  not the negation of \<open>a > b\<close>.\<close>

definition js_gt :: "jsnum \<Rightarrow> jsnum \<Rightarrow> bool" where
  "js_gt a b = js_lt b a"

definition js_le :: "jsnum \<Rightarrow> jsnum \<Rightarrow> bool" where
  "js_le a b = (a \<noteq> NaN \<and> b \<noteq> NaN \<and> \<not> js_lt b a)"

text \<open>\<open>Number.isFinite\<close> on a number, and on any value (no coercion: a value that is not
  a number is not finite).\<close>

fun finite_num :: "jsnum \<Rightarrow> bool" where
  "finite_num (Fin _) = True"
| "finite_num _ = False"

fun Number_isFinite :: "jsval \<Rightarrow> bool" where
  "Number_isFinite (JNum n) = finite_num n"
| "Number_isFinite _ = False"

text \<open>Truthiness, as \<open>!x\<close>, \<open>x && y\<close> and \<open>if (x)\<close> read a value.\<close>

fun truthy_num :: "jsnum \<Rightarrow> bool" where
  "truthy_num (Fin a) = (a \<noteq> 0)"
| "truthy_num NaN = False"
| "truthy_num _ = True"

fun truthy :: "jsval \<Rightarrow> bool" where
  "truthy JUndefined = False"
| "truthy JNull = False"
| "truthy (JBool b) = b"
| "truthy (JNum n) = truthy_num n"
| "truthy (JString s) = (s \<noteq> [])"
| "truthy (JArr _) = True"
| "truthy (JObject _) = True"

subsection \<open>Property access\<close>

text \<open>
  \<open>lookup\<close> reads an own property of a parsed object. The code reads only the names
  \<open>id\<close>, \<open>chainValue\<close>, \<open>valuePools\<close>, \<open>zcash\<close>, \<open>blocks\<close>, \<open>blockchain\<close>,
  \<open>estimatedheight\<close>, \<open>size\<close>, the price entry's fields, and \<open>length\<close> (of an array, or
  of an object that is not an array); none of them is inherited from a prototype of an
  object, and none but \<open>length\<close> is a property of a string, an array, a number or a
  boolean. The names are ASCII.
\<close>

definition lookup :: "(jsstring \<times> jsval) list \<Rightarrow> string \<Rightarrow> jsval" where
  "lookup kvs k = (case map_of (rev kvs) (ascii k) of None \<Rightarrow> JUndefined | Some v \<Rightarrow> v)"

text \<open>\<open>v.k\<close>: a \<open>TypeError\<close> on \<open>null\<close> and \<open>undefined\<close>.\<close>

fun get :: "jsval \<Rightarrow> string \<Rightarrow> error + jsval" where
  "get JUndefined k = Inl TypeError"
| "get JNull k = Inl TypeError"
| "get (JObject kvs) k = Inr (lookup kvs k)"
| "get _ k = Inr JUndefined"

text \<open>\<open>v?.k\<close>: \<open>undefined\<close> on \<open>null\<close> and \<open>undefined\<close>.\<close>

fun opt_get :: "jsval \<Rightarrow> string \<Rightarrow> jsval" where
  "opt_get (JObject kvs) k = lookup kvs k"
| "opt_get _ k = JUndefined"

text \<open>\<open>a ?? b\<close>.\<close>

definition nullish :: "jsval \<Rightarrow> jsval \<Rightarrow> jsval" where
  "nullish a b = (if a = JNull \<or> a = JUndefined then b else a)"

subsection \<open>The conversion \<open>Number(value)\<close>\<close>

text \<open>
  A string converts by the grammar of numeric string literals: white space and line
  terminators are trimmed, the empty string is 0, then comes a binary, octal or
  hexadecimal integer (no sign), or a signed decimal literal with optional fraction and
  exponent, or a signed \<open>Infinity\<close>; anything else is \<open>NaN\<close>. The value of a literal is
  rounded to the nearest double.
\<close>

definition digit_of :: "nat \<Rightarrow> nat option" where
  "digit_of c =
     (if 48 \<le> c \<and> c \<le> 57 then Some (c - 48)
      else if 97 \<le> c \<and> c \<le> 102 then Some (c - 87)
      else if 65 \<le> c \<and> c \<le> 70 then Some (c - 55)
      else None)"

fun digits :: "nat \<Rightarrow> nat \<Rightarrow> jsstring \<Rightarrow> nat option" where
  "digits b acc [] = Some acc"
| "digits b acc (c # cs) =
     (case digit_of c of
        None \<Rightarrow> None
      | Some d \<Rightarrow> if d < b then digits b (acc * b + d) cs else None)"

text \<open>
  The code points of \<open>WhiteSpace\<close> (tab, vertical tab, form feed, the byte order mark and
  the space separators of Unicode) and of \<open>LineTerminator\<close>.
\<close>

definition StrWhiteSpaceChar :: "nat \<Rightarrow> bool" where
  "StrWhiteSpaceChar c =
     (c \<in> {9, 10, 11, 12, 13, 32, 160, 5760, 8232, 8233, 8239, 8287, 12288, 65279}
      \<or> (8192 \<le> c \<and> c \<le> 8202))"

definition trim :: "jsstring \<Rightarrow> jsstring" where
  "trim s = rev (dropWhile StrWhiteSpaceChar (rev (dropWhile StrWhiteSpaceChar s)))"

definition NonDecimalIntegerLiteral :: "jsstring \<Rightarrow> nat option" where
  "NonDecimalIntegerLiteral s =
     (case s of
        c0 # c1 # ds \<Rightarrow>
          if c0 \<noteq> cu CHR ''0'' \<or> ds = [] then None
          else if c1 = cu CHR ''x'' \<or> c1 = cu CHR ''X'' then digits 16 0 ds
          else if c1 = cu CHR ''o'' \<or> c1 = cu CHR ''O'' then digits 8 0 ds
          else if c1 = cu CHR ''b'' \<or> c1 = cu CHR ''B'' then digits 2 0 ds
          else None
      | _ \<Rightarrow> None)"

definition SignedInteger :: "jsstring \<Rightarrow> int option" where
  "SignedInteger s =
     (case s of
        [] \<Rightarrow> None
      | c # cs \<Rightarrow>
          if c = cu CHR ''+'' then (if cs = [] then None else map_option int (digits 10 0 cs))
          else if c = cu CHR ''-'' then
            (if cs = [] then None else map_option (\<lambda>n. - int n) (digits 10 0 cs))
          else map_option int (digits 10 0 s))"

definition scale10 :: "real \<Rightarrow> int \<Rightarrow> real" where
  "scale10 x e = (if 0 \<le> e then x * 10 ^ nat e else x / 10 ^ nat (- e))"

definition StrUnsignedDecimalLiteral :: "jsstring \<Rightarrow> jsnum option" where
  "StrUnsignedDecimalLiteral s =
     (if s = ascii ''Infinity'' then Some PInf
      else
        let no_e = (\<lambda>c. c \<noteq> cu CHR ''e'' \<and> c \<noteq> cu CHR ''E'');
            mantissa = takeWhile no_e s;
            etail = dropWhile no_e s;
            ip = takeWhile (\<lambda>c. c \<noteq> cu CHR ''.'') mantissa;
            ftail = dropWhile (\<lambda>c. c \<noteq> cu CHR ''.'') mantissa;
            fp = (if ftail = [] then [] else tl ftail);
            expo = (if etail = [] then Some 0 else SignedInteger (tl etail))
        in if ip = [] \<and> fp = [] then None
           else
             (case (digits 10 0 ip, digits 10 0 fp, expo) of
                (Some i, Some f, Some e) \<Rightarrow>
                  Some (to_double (scale10 (real i + real f / 10 ^ length fp) e))
              | _ \<Rightarrow> None))"

definition StrDecimalLiteral :: "jsstring \<Rightarrow> jsnum option" where
  "StrDecimalLiteral s =
     (case s of
        [] \<Rightarrow> None
      | c # cs \<Rightarrow>
          if c = cu CHR ''+'' then StrUnsignedDecimalLiteral cs
          else if c = cu CHR ''-'' then map_option jsneg (StrUnsignedDecimalLiteral cs)
          else StrUnsignedDecimalLiteral s)"

definition StringToNumber :: "jsstring \<Rightarrow> jsnum" where
  "StringToNumber s =
     (let t = trim s in
      if t = [] then Fin 0
      else
        (case NonDecimalIntegerLiteral t of
           Some n \<Rightarrow> to_double (real n)
         | None \<Rightarrow> (case StrDecimalLiteral t of Some x \<Rightarrow> x | None \<Rightarrow> NaN)))"

text \<open>
  An object or array converts through its primitive value. A parsed object has the
  inherited \<open>valueOf\<close> (which returns the object itself) and \<open>toString\<close> (which returns
  \<open>[object Object]\<close>, not a numeric literal); a member named \<open>toString\<close> shadows the
  latter with a value that cannot be called, and then the conversion raises a
  \<open>TypeError\<close>. An array converts through \<open>join\<close>, which raises when the conversion of
  an element to a string does.
\<close>

fun unprintable :: "jsval \<Rightarrow> bool" where
  "unprintable (JObject kvs) = (ascii ''toString'' \<in> fst ` set kvs)"
| "unprintable (JArr xs) = (\<exists>x \<in> set xs. unprintable x)"
| "unprintable _ = False"

text \<open>
  The string of an array joins the strings of its elements with commas, and no numeric
  literal holds a comma: an array of two or more elements is \<open>NaN\<close>. An array of one
  element converts as the string of that element, which is empty for \<open>null\<close> and
  \<open>undefined\<close>, \<open>true\<close> or \<open>false\<close> for a boolean, and reads back as the number itself for
  a number.
\<close>

fun Number :: "jsval \<Rightarrow> error + jsnum" where
  "Number JUndefined = Inr NaN"
| "Number JNull = Inr (Fin 0)"
| "Number (JBool b) = Inr (Fin (if b then 1 else 0))"
| "Number (JNum n) = Inr n"
| "Number (JString s) = Inr (StringToNumber s)"
| "Number (JObject kvs) = (if unprintable (JObject kvs) then Inl TypeError else Inr NaN)"
| "Number (JArr []) = Inr (Fin 0)"
| "Number (JArr [x]) =
     (case x of
        JUndefined \<Rightarrow> Inr (Fin 0)
      | JNull \<Rightarrow> Inr (Fin 0)
      | JBool b \<Rightarrow> Inr NaN
      | _ \<Rightarrow> Number x)"
| "Number (JArr (x # y # zs)) =
     (if unprintable (JArr (x # y # zs)) then Inl TypeError else Inr NaN)"

section \<open>The server\<close>

subsection \<open>sanitizeNumber\<close>

text \<open>
  \<^verbatim>\<open>
  function sanitizeNumber(value) {
    if (value === null || value === undefined) return null;
    const num = typeof value === "number" ? value : Number(value);
    return Number.isFinite(num) ? num : null;
  }
  \<close>
  The result is a number or \<open>null\<close>: \<open>None\<close> stands for \<open>null\<close>.
\<close>

definition sanitizeNumber :: "jsval \<Rightarrow> error + jsnum option" where
  "sanitizeNumber v =
     (if v = JNull \<or> v = JUndefined then Inr None
      else
        bindE (case v of JNum n \<Rightarrow> Inr n | _ \<Rightarrow> Number v)
          (\<lambda>num. Inr (if finite_num num then Some num else None)))"

text \<open>A nullable number as a value of the response.\<close>

fun nullable :: "jsnum option \<Rightarrow> jsval" where
  "nullable None = JNull"
| "nullable (Some n) = JNum n"

subsection \<open>extractValuePools\<close>

text \<open>
  \<open>Array_find ident vp\<close> is \<open>vp.find((p) => p.id === id)\<close> for the string \<open>ident\<close>:
  the first element whose \<open>id\<close> is that string, \<open>undefined\<close> when there is none. The callback reads \<open>p.id\<close>
  without a guard, so an element \<open>null\<close> that the search reaches raises.
\<close>

fun Array_find :: "string \<Rightarrow> jsval list \<Rightarrow> error + jsval" where
  "Array_find ident [] = Inr JUndefined"
| "Array_find ident (p # ps) =
     bindE (get p ''id'') (\<lambda>v. if v = JStr ident then Inr p else Array_find ident ps)"

text \<open>
  The closure \<open>find\<close> of the source:
  \<^verbatim>\<open>const find = (id) => Number(vp.find((p) => p.id === id)?.chainValue ?? 0);\<close>
\<close>

definition find_pool :: "jsval list \<Rightarrow> string \<Rightarrow> error + jsnum" where
  "find_pool vp ident =
     bindE (Array_find ident vp)
       (\<lambda>p. Number (nullish (opt_get p ''chainValue'') (JNum (Fin 0))))"

text \<open>\<open>Array.isArray(info?.valuePools) ? info.valuePools : []\<close>\<close>

definition pool_list :: "jsval \<Rightarrow> jsval list" where
  "pool_list info = (case opt_get info ''valuePools'' of JArr xs \<Rightarrow> xs | _ \<Rightarrow> [])"

text \<open>
  \<open>Number.isFinite(circulatingSupply) && circulatingSupply > 0
    ? circulatingSupply : totalFromInfo\<close>
\<close>

definition choose_total :: "jsval \<Rightarrow> jsnum \<Rightarrow> jsnum" where
  "choose_total circulatingSupply totalFromInfo =
     (case circulatingSupply of
        JNum n \<Rightarrow> if finite_num n \<and> js_gt n (Fin 0) then n else totalFromInfo
      | _ \<Rightarrow> totalFromInfo)"

text \<open>
  \<^verbatim>\<open>
  if ((!transparent || transparent <= 0) && Number.isFinite(totalChain)) {
    const inferred = totalChain - shielded - lockbox;
    if (Number.isFinite(inferred) && inferred > 0) {
      transparent = inferred;
    }
  }
  \<close>
\<close>

definition infer_transparent :: "jsnum \<Rightarrow> jsnum \<Rightarrow> jsnum \<Rightarrow> jsnum \<Rightarrow> jsnum" where
  "infer_transparent transparent totalChain shielded lockbox =
     (if (\<not> truthy_num transparent \<or> js_le transparent (Fin 0)) \<and> finite_num totalChain then
        let inferred = jssub (jssub totalChain shielded) lockbox in
        if finite_num inferred \<and> js_gt inferred (Fin 0) then inferred else transparent
      else transparent)"

record ValuePools =
  transparent :: jsnum
  sprout :: jsnum
  sapling :: jsnum
  orchard :: jsnum
  lockbox :: jsnum
  shielded :: jsnum
  totalChain :: jsnum

definition extractValuePools :: "jsval \<Rightarrow> jsval \<Rightarrow> error + ValuePools" where
  "extractValuePools info circulatingSupply =
     (let vp = pool_list info in
      bindE (find_pool vp ''transparent'') (\<lambda>transparent0.
      bindE (find_pool vp ''sprout'') (\<lambda>sprout.
      bindE (find_pool vp ''sapling'') (\<lambda>sapling.
      bindE (find_pool vp ''orchard'') (\<lambda>orchard.
      bindE (find_pool vp ''lockbox'') (\<lambda>lockbox.
        let shielded = jsadd (jsadd sprout sapling) orchard;
            totalFromInfo = jsadd (jsadd transparent0 shielded) lockbox;
            totalChain = choose_total circulatingSupply totalFromInfo;
            transparent1 = infer_transparent transparent0 totalChain shielded lockbox
        in
        bindE (sanitizeNumber (JNum transparent1)) (\<lambda>sanitized.
          Inr \<lparr> transparent = (case sanitized of None \<Rightarrow> Fin 0 | Some n \<Rightarrow> n),
                sprout = sprout,
                sapling = sapling,
                orchard = orchard,
                lockbox = lockbox,
                shielded = shielded,
                totalChain = totalChain \<rparr>)))))))"

subsection \<open>The status handler\<close>

text \<open>
  The snapshot is the object handed to \<open>res.json\<close>. The six fields that come out of
  \<open>sanitizeNumber\<close> are nullable numbers; \<open>height\<close> and \<open>mempoolSize\<close> are whatever
  value the expressions of the handler yield.
\<close>

record StatusSnapshot =
  timestamp :: int
  priceUsd :: "jsnum option"
  priceChange24h :: "jsnum option"
  marketCapUsd :: "jsnum option"
  marketCapChange24h :: "jsnum option"
  marketCapChangeUsd :: "jsnum option"
  circulatingSupply :: "jsnum option"
  height :: jsval
  mempoolSize :: jsval
  valuePools :: ValuePools

datatype payload = Snapshot StatusSnapshot | Json jsval

record response =
  status :: nat
  body :: payload

text \<open>
  \<open>Array.isArray(priceData) ? priceData[0] ?? null : priceData?.zcash ?? null\<close>
\<close>

definition price_entry :: "jsval \<Rightarrow> jsval" where
  "price_entry priceData =
     (case priceData of
        JArr xs \<Rightarrow> nullish (case xs of [] \<Rightarrow> JUndefined | x # _ \<Rightarrow> x) JNull
      | _ \<Rightarrow> nullish (opt_get priceData ''zcash'') JNull)"

text \<open>
  \<open>infoData?.blocks ?? infoData?.blockchain?.blocks ?? infoData?.estimatedheight ?? null\<close>
\<close>

definition block_height :: "jsval \<Rightarrow> jsval" where
  "block_height infoData =
     nullish
       (nullish
          (nullish (opt_get infoData ''blocks'')
             (opt_get (opt_get infoData ''blockchain'') ''blocks''))
          (opt_get infoData ''estimatedheight''))
       JNull"

text \<open>
  \<^verbatim>\<open>
  let mempoolSize = 0;
  if (Array.isArray(mempoolData)) {
    mempoolSize = mempoolData.length;
  } else if (mempoolData && typeof mempoolData === "object") {
    mempoolSize = mempoolData.size ?? mempoolData.length ?? 0;
  }
  \<close>
\<close>

definition mempool_size :: "jsval \<Rightarrow> jsval" where
  "mempool_size mempoolData =
     (case mempoolData of
        JArr xs \<Rightarrow> JNum (Fin (real (length xs)))
      | JObject kvs \<Rightarrow>
          nullish (nullish (lookup kvs ''size'') (lookup kvs ''length'')) (JNum (Fin 0))
      | _ \<Rightarrow> JNum (Fin 0))"

text \<open>
  The body of the \<open>try\<close> block after the \<open>await\<close>, on the three values that
  \<open>Promise.all\<close> delivered; \<open>now\<close> is what \<open>Date.now()\<close> returns when the response is
  built. An exception of \<open>sanitizeNumber\<close> or \<open>extractValuePools\<close> leaves the block.
\<close>

definition build_snapshot :: "int \<Rightarrow> jsval \<Rightarrow> jsval \<Rightarrow> jsval \<Rightarrow> error + StatusSnapshot" where
  "build_snapshot now priceData infoData mempoolData =
     (let priceEntry = price_entry priceData in
      bindE (sanitizeNumber
               (nullish (opt_get priceEntry ''current_price'') (opt_get priceEntry ''usd'')))
        (\<lambda>priceUsd.
      bindE (sanitizeNumber
               (nullish (opt_get priceEntry ''price_change_percentage_24h'')
                  (opt_get priceEntry ''usd_24h_change'')))
        (\<lambda>priceChange24h.
      bindE (sanitizeNumber
               (nullish (opt_get priceEntry ''market_cap'') (opt_get priceEntry ''usd_market_cap'')))
        (\<lambda>marketCapUsd.
      bindE (sanitizeNumber
               (nullish (opt_get priceEntry ''market_cap_change_percentage_24h'') JNull))
        (\<lambda>marketCapChange24h.
      bindE (sanitizeNumber (nullish (opt_get priceEntry ''market_cap_change_24h'') JNull))
        (\<lambda>marketCapChangeUsd.
      bindE (sanitizeNumber (nullish (opt_get priceEntry ''circulating_supply'') JNull))
        (\<lambda>circulatingSupply.
      bindE (extractValuePools infoData (nullable circulatingSupply))
        (\<lambda>pools.
          Inr \<lparr> timestamp = now,
                priceUsd = priceUsd,
                priceChange24h = priceChange24h,
                marketCapUsd = marketCapUsd,
                marketCapChange24h = marketCapChange24h,
                marketCapChangeUsd = marketCapChangeUsd,
                circulatingSupply = circulatingSupply,
                height = block_height infoData,
                mempoolSize = mempool_size mempoolData,
                valuePools = pools \<rparr>))))))))"

definition upstream_failed :: jsval where
  "upstream_failed = JObj [(''error'', JStr ''upstream_failed'')]"

text \<open>
  The handler of \<open>GET /api/status\<close>, as a function of how the three promises given to
  \<open>Promise.all\<close> settle: the promise of \<open>getCachedPriceData()\<close>, that of
  \<open>getJSON(INFO_URL)\<close>, and that of \<open>getJSON(MEMPOOL_URL, ...)\<close> before its
  \<open>.catch(() => null)\<close>. A rejection of the first or the second, and any exception in the
  block, reach the \<open>catch\<close> clause.
\<close>

definition status_handler ::
  "int \<Rightarrow> error + jsval \<Rightarrow> error + jsval \<Rightarrow> error + jsval \<Rightarrow> response" where
  "status_handler now price info mempool =
     (case bindE price (\<lambda>priceData.
           bindE info (\<lambda>infoData.
             build_snapshot now priceData infoData
               (case mempool of Inl err \<Rightarrow> JNull | Inr mempoolData \<Rightarrow> mempoolData))) of
        Inr snapshot \<Rightarrow> \<lparr> status = 200, body = Snapshot snapshot \<rparr>
      | Inl err \<Rightarrow> \<lparr> status = 500, body = Json upstream_failed \<rparr>)"

subsection \<open>The price cache\<close>

text \<open>
  \<open>priceCache\<close> is the module's object \<open>{ data, fetchedAt, promise }\<close>. A promise is
  named by the number of the upstream request it waits for: \<open>promise = Some k\<close> says that
  the marker holds the promise of request \<open>k\<close>, \<open>None\<close> that it is \<open>null\<close>.

  The server runs on one thread: a call of \<open>getCachedPriceData\<close> runs to its \<open>return\<close>
  without interruption, and so do the callbacks of a fetch that completes (they run as
  consecutive microtasks, and a handler calls \<open>getCachedPriceData\<close> only when a request
  arrives). \<open>system\<close> adds to the cache what the environment holds: how many requests
  \<open>getJSON(PRICE_URL)\<close> has issued so far, and which of them have not completed yet.
\<close>

record priceCache =
  data :: jsval
  fetchedAt :: int
  promise :: "nat option"

record system =
  cache :: priceCache
  requests :: nat
  pending :: "nat set"

definition initial :: system where
  "initial =
     \<lparr> cache = \<lparr> data = JNull, fetchedAt = 0, promise = None \<rparr>, requests = 0, pending = {} \<rparr>"

text \<open>What a call returns: a promise already resolved with a value, or the promise of a
  request in flight.\<close>

datatype reply = Resolved jsval | Shared nat

text \<open>\<open>priceCache.data && now - priceCache.fetchedAt <= PRICE_CACHE_TTL_MS\<close>. The
  time to live is \<open>Number(process.env.PRICE_CACHE_TTL_MS ?? 60_000)\<close>, any number,
  \<open>NaN\<close> included; the two times are values of \<open>Date.now()\<close>, integers whose
  difference is exact.\<close>

definition is_fresh :: "jsnum \<Rightarrow> int \<Rightarrow> priceCache \<Rightarrow> bool" where
  "is_fresh ttl now c = (truthy (data c) \<and> js_le (Fin (real_of_int (now - fetchedAt c))) ttl)"

text \<open>
  \<^verbatim>\<open>
  function getCachedPriceData() {
    const now = Date.now();
    if (priceCache.data && now - priceCache.fetchedAt <= PRICE_CACHE_TTL_MS) {
      return Promise.resolve(priceCache.data);
    }
    if (priceCache.promise) {
      return priceCache.promise;
    }
    const fetchPromise = getJSON(PRICE_URL).then(...).catch(...).finally(...);
    priceCache.promise = fetchPromise;
    return fetchPromise;
  }
  \<close>
\<close>

definition getCachedPriceData :: "jsnum \<Rightarrow> int \<Rightarrow> system \<Rightarrow> reply \<times> system" where
  "getCachedPriceData ttl now s =
     (if is_fresh ttl now (cache s) then (Resolved (data (cache s)), s)
      else
        (case promise (cache s) of
           Some k \<Rightarrow> (Shared k, s)
         | None \<Rightarrow>
             let k = requests s in
             (Shared k,
              s\<lparr> cache := (cache s)\<lparr> promise := Some k \<rparr>,
                 requests := k + 1,
                 pending := insert k (pending s) \<rparr>)))"

text \<open>
  Request \<open>k\<close> completes with \<open>outcome\<close> at time \<open>now\<close>, and the callbacks run:
  \<^verbatim>\<open>
    .then((fresh) => {
      priceCache.data = fresh;
      priceCache.fetchedAt = Date.now();
      return fresh;
    })
    .catch((err) => {
      if (priceCache.data) {
        console.warn("price fetch error (serving cached):", err);
        return priceCache.data;
      }
      throw err;
    })
    .finally(() => {
      priceCache.promise = null;
    });
  \<close>
  The first component is how \<open>fetchPromise\<close> settles.
\<close>

definition settle :: "nat \<Rightarrow> error + jsval \<Rightarrow> int \<Rightarrow> system \<Rightarrow> (error + jsval) \<times> system" where
  "settle k outcome now s =
     (let c = cache s;
          (settled, c1) =
            (case outcome of
               Inr fresh \<Rightarrow> (Inr fresh, c\<lparr> data := fresh, fetchedAt := now \<rparr>)
             | Inl err \<Rightarrow> (if truthy (data c) then Inr (data c) else Inl err, c))
      in (settled, s\<lparr> cache := c1\<lparr> promise := None \<rparr>, pending := pending s - {k} \<rparr>))"

text \<open>What the caller that holds \<open>r\<close> receives once request \<open>k\<close> has settled as
  \<open>settled\<close>; \<open>None\<close> while its promise is pending.\<close>

fun received :: "nat \<Rightarrow> error + jsval \<Rightarrow> reply \<Rightarrow> (error + jsval) option" where
  "received k settled (Resolved v) = Some (Inr v)"
| "received k settled (Shared j) = (if j = k then Some settled else None)"

text \<open>Callers one after the other, at the times \<open>nows\<close>, with no completion between
  them.\<close>

fun calls :: "jsnum \<Rightarrow> int list \<Rightarrow> system \<Rightarrow> reply list \<times> system" where
  "calls ttl [] s = ([], s)"
| "calls ttl (now # nows) s =
     (let (r, s1) = getCachedPriceData ttl now s;
          (rs, s2) = calls ttl nows s1
      in (r # rs, s2))"

text \<open>The states the server can be in: calls at any time, and completions of requests
  that are in flight, with any outcome.\<close>

inductive reachable :: "jsnum \<Rightarrow> system \<Rightarrow> bool" for ttl :: jsnum where
  start: "reachable ttl initial"
| call: "reachable ttl s \<Longrightarrow> reachable ttl (snd (getCachedPriceData ttl now s))"
| completion:
    "reachable ttl s \<Longrightarrow> k \<in> pending s \<Longrightarrow> reachable ttl (snd (settle k outcome now s))"

subsection \<open>Fixtures and predicates of the statements\<close>

text \<open>A pool record \<open>{id, chainValue}\<close>, and an info payload with the five pools in the
  order of the specification's examples.\<close>

definition pool :: "string \<Rightarrow> jsval \<Rightarrow> jsval" where
  "pool ident v = JObj [(''id'', JStr ident), (''chainValue'', v)]"

definition info_payload :: "jsval \<Rightarrow> jsval \<Rightarrow> jsval \<Rightarrow> jsval \<Rightarrow> jsval \<Rightarrow> jsval" where
  "info_payload t sp sa orc lb =
     JObj [(''valuePools'',
        JArr [pool ''transparent'' t, pool ''sprout'' sp, pool ''sapling'' sa,
              pool ''orchard'' orc, pool ''lockbox'' lb])]"

text \<open>A finite number or \<open>null\<close>.\<close>

definition finite_or_null :: "jsval \<Rightarrow> bool" where
  "finite_or_null v = (v = JNull \<or> Number_isFinite v)"

text \<open>A payload in which no object has a member named \<open>toString\<close>: every value of it
  has a primitive value.\<close>

fun plain :: "jsval \<Rightarrow> bool" where
  "plain (JObject kvs) =
     (ascii ''toString'' \<notin> fst ` set kvs \<and> (\<forall>v \<in> snd ` set kvs. plain v))"
| "plain (JArr xs) = (\<forall>x \<in> set xs. plain x)"
| "plain _ = True"

text \<open>
  The invariant of the cache: the requests in flight are exactly the one whose promise
  the marker holds, if it holds one, and every request in flight has been issued.
\<close>

definition cache_inv :: "system \<Rightarrow> bool" where
  "cache_inv s =
     (pending s = (case promise (cache s) of None \<Rightarrow> {} | Some k \<Rightarrow> {k}) \<and>
      (\<forall>k \<in> pending s. k < requests s))"

text \<open>
  A price payload of one market entry.
\<close>

definition quote :: jsval where
  "quote = JArr [JObj [(''current_price'', JNum (Fin 40))]]"

section \<open>Evaluation and shared lemmas\<close>

lemma bindE_simps:
  "bindE (Inl e) f = Inl e"
  "bindE (Inr x) f = f x"
  by (simp_all add: bindE_def)

lemma bindE_Inr_iff:
  "bindE m f = Inr y \<longleftrightarrow> (\<exists>x. m = Inr x \<and> f x = Inr y)"
  by (cases m) (simp_all add: bindE_simps)

lemma bindE_map_sum:
  "map_sum (\<lambda>e. e) g (bindE m f) = bindE m (\<lambda>x. map_sum (\<lambda>e. e) g (f x))"
  by (cases m) (simp_all add: bindE_simps)

text \<open>
  Rules that evaluate \<open>bits\<close> on a numeral, one bit at a time below \<open>2 ^ 64\<close> and 64
  bits at a time above.
\<close>

lemma bits_from_skip:
  "2 ^ m \<le> n \<Longrightarrow> bits_from k n = bits_from (k + int m) (n div 2 ^ m)"
proof (induction m arbitrary: k n)
  case 0
  then show ?case by simp
next
  case (Suc m)
  then have pos: "0 < n" and half: "2 ^ m \<le> n div 2"
    by (simp_all add: order_less_le_trans [of 0 "2 * 2 ^ m" n])
  from pos have "bits_from k n = bits_from (k + 1) (n div 2)"
    by (simp add: bits_from.simps)
  also from Suc.IH [OF half] have "\<dots> = bits_from (k + 1 + int m) (n div 2 div 2 ^ m)" .
  also have "n div 2 div 2 ^ m = n div 2 ^ Suc m"
    by (simp add: zdiv_zmult2_eq)
  finally show ?case by (simp add: add.assoc)
qed

lemma bits_from_eval:
  "n \<le> 0 \<Longrightarrow> bits_from k n = k"
  "18446744073709551616 \<le> n \<Longrightarrow>
     bits_from k n = bits_from (k + 64) (n div 18446744073709551616)"
  "0 < n \<Longrightarrow> n < 18446744073709551616 \<Longrightarrow> bits_from k n = bits_from (k + 1) (n div 2)"
proof -
  show "n \<le> 0 \<Longrightarrow> bits_from k n = k"
    by (simp add: bits_from.simps)
  show "0 < n \<Longrightarrow> n < 18446744073709551616 \<Longrightarrow> bits_from k n = bits_from (k + 1) (n div 2)"
    by (simp add: bits_from.simps)
  show "18446744073709551616 \<le> n \<Longrightarrow>
     bits_from k n = bits_from (k + 64) (n div 18446744073709551616)"
    using bits_from_skip [of 64 n k] by simp
qed

lemmas double_eval =
  to_double_def with_sign_def nearest_def nearest_multiple_def quantum_def
  binary_exponent_def small_exponent_def round_half_even_def round_from_def pow2_def
  bits_def bits_from_eval

lemmas value_eval = JStr_def JObj_def ascii_def cu_def

lemmas string_eval =
  StringToNumber_def trim_def StrWhiteSpaceChar_def NonDecimalIntegerLiteral_def
  StrDecimalLiteral_def StrUnsignedDecimalLiteral_def SignedInteger_def digit_of_def
  scale10_def

lemmas reconcile_eval =
  info_payload_def pool_def extractValuePools_def pool_list_def lookup_def find_pool_def
  bindE_simps nullish_def choose_total_def infer_transparent_def js_gt_def js_le_def
  jssub_def sanitizeNumber_def Let_def value_eval double_eval

lemmas handler_eval =
  status_handler_def build_snapshot_def price_entry_def block_height_def mempool_size_def
  upstream_failed_def finite_or_null_def value_eval

lemmas cache_eval =
  getCachedPriceData_def settle_def is_fresh_def initial_def js_le_def Let_def value_eval

subsection \<open>Lemmas about the reconciler\<close>

lemma sanitizeNumber_JNum:
  "sanitizeNumber (JNum n) = Inr (if finite_num n then Some n else None)"
  by (simp add: sanitizeNumber_def bindE_simps)

lemma sanitizeNumber_Inr:
  "sanitizeNumber v = Inr r \<Longrightarrow> finite_or_null (nullable r)"
  by (cases v)
     (auto simp: sanitizeNumber_def bindE_Inr_iff finite_or_null_def split: if_splits)

text \<open>
  What a returned record says about the run that produced it.
\<close>

lemma extractValuePools_Inr:
  assumes "extractValuePools info circ = Inr r"
  obtains t0 where
    "find_pool (pool_list info) ''transparent'' = Inr t0"
    "find_pool (pool_list info) ''sprout'' = Inr (sprout r)"
    "find_pool (pool_list info) ''sapling'' = Inr (sapling r)"
    "find_pool (pool_list info) ''orchard'' = Inr (orchard r)"
    "find_pool (pool_list info) ''lockbox'' = Inr (lockbox r)"
    "shielded r = jsadd (jsadd (sprout r) (sapling r)) (orchard r)"
    "totalChain r = choose_total circ (jsadd (jsadd t0 (shielded r)) (lockbox r))"
    "transparent r =
       (let t1 = infer_transparent t0 (totalChain r) (shielded r) (lockbox r)
        in if finite_num t1 then t1 else Fin 0)"
  using assms
  unfolding extractValuePools_def Let_def bindE_Inr_iff sanitizeNumber_JNum
  by (auto split: if_splits)

lemma transparent_finite:
  "extractValuePools info circ = Inr r \<Longrightarrow> finite_num (transparent r)"
  by (erule extractValuePools_Inr) (simp add: Let_def)

text \<open>
  The guard \<open>!transparent || transparent <= 0\<close> holds of zero, of \<open>NaN\<close> and of the
  negative numbers, \<open>-Infinity\<close> included.
\<close>

lemma needs_inference_iff:
  "(\<not> truthy_num t \<or> js_le t (Fin 0)) \<longleftrightarrow> (t = Fin 0 \<or> t = NaN \<or> js_lt t (Fin 0))"
  by (cases t) (auto simp: js_le_def)

lemma choose_total_cases:
  "choose_total circ tfi =
     (if \<exists>x. circ = JNum (Fin x) \<and> 0 < x then (case circ of JNum n \<Rightarrow> n | _ \<Rightarrow> tfi)
      else tfi)"
proof (cases circ)
  case (JNum n)
  then show ?thesis by (cases n) (auto simp: choose_total_def js_gt_def)
qed (simp_all add: choose_total_def)

lemma get_opt_get: "get p k = Inr v \<Longrightarrow> opt_get p k = v"
  by (cases p) auto

text \<open>
  When the search returns, it returns the first record whose \<open>id\<close> matches.
\<close>

lemma Array_find_first:
  "Array_find ident vp = Inr q \<Longrightarrow>
     (case List.find (\<lambda>p. opt_get p ''id'' = JStr ident) vp of
        None \<Rightarrow> q = JUndefined
      | Some p \<Rightarrow> q = p)"
proof (induction vp)
  case Nil
  then show ?case by simp
next
  case (Cons p ps)
  from Cons.prems obtain v where v: "get p ''id'' = Inr v"
    and rest: "(if v = JStr ident then Inr p else Array_find ident ps) = Inr q"
    by (auto simp: bindE_Inr_iff)
  from v have o: "opt_get p ''id'' = v" by (rule get_opt_get)
  show ?case
  proof (cases "v = JStr ident")
    case True
    with rest o show ?thesis by simp
  next
    case False
    with rest have "Array_find ident ps = Inr q" by simp
    from Cons.IH [OF this] False o show ?thesis by simp
  qed
qed

text \<open>
  The search returns when the list holds no \<open>null\<close>, and the conversion returns on a
  value that has a primitive value.
\<close>

lemma Array_find_returns:
  "\<forall>p \<in> set vp. p \<noteq> JNull \<and> p \<noteq> JUndefined \<Longrightarrow>
     \<exists>q. Array_find ident vp = Inr q \<and> (q = JUndefined \<or> q \<in> set vp)"
proof (induction vp)
  case Nil
  then show ?case by simp
next
  case (Cons p ps)
  then obtain v where "get p ''id'' = Inr v"
    by (cases p) auto
  with Cons show ?case by (auto simp: bindE_simps)
qed

lemma Number_returns: "\<not> unprintable v \<Longrightarrow> \<exists>n. Number v = Inr n"
proof (induction v rule: Number.induct)
  case (8 x)
  then show ?case by (cases x) auto
qed auto

lemma find_pool_returns:
  "\<forall>p \<in> set vp. p \<noteq> JNull \<and> p \<noteq> JUndefined \<and> \<not> unprintable (opt_get p ''chainValue'') \<Longrightarrow>
     \<exists>m. find_pool vp ident = Inr m"
proof -
  assume a: "\<forall>p \<in> set vp. p \<noteq> JNull \<and> p \<noteq> JUndefined \<and> \<not> unprintable (opt_get p ''chainValue'')"
  then obtain q where q: "Array_find ident vp = Inr q" and m: "q = JUndefined \<or> q \<in> set vp"
    using Array_find_returns [of vp ident] by blast
  from m a have "\<not> unprintable (nullish (opt_get q ''chainValue'') (JNum (Fin 0)))"
    by (auto simp: nullish_def)
  then obtain m where "Number (nullish (opt_get q ''chainValue'') (JNum (Fin 0))) = Inr m"
    using Number_returns by blast
  with q show "\<exists>m. find_pool vp ident = Inr m"
    by (simp add: find_pool_def bindE_simps)
qed

text \<open>
  On a payload without a member named \<open>toString\<close> every conversion returns.
\<close>

lemma plain_printable: "plain v \<Longrightarrow> \<not> unprintable v"
  by (induction v rule: unprintable.induct) auto

lemma plain_lookup: "plain (JObject kvs) \<Longrightarrow> plain (lookup kvs k)"
proof -
  assume p: "plain (JObject kvs)"
  show ?thesis
  proof (cases "map_of (rev kvs) (ascii k)")
    case None
    then show ?thesis by (simp add: lookup_def)
  next
    case (Some v)
    then have "(ascii k, v) \<in> set kvs" by (auto dest: map_of_SomeD)
    then have "v \<in> snd ` set kvs" by force
    with p have "plain v" by auto
    with Some show ?thesis by (simp add: lookup_def)
  qed
qed

lemma plain_opt_get: "plain v \<Longrightarrow> plain (opt_get v k)"
  by (cases v) (simp_all add: plain_lookup del: plain.simps(1))

lemma plain_nullish: "plain a \<Longrightarrow> plain b \<Longrightarrow> plain (nullish a b)"
  by (simp add: nullish_def)

lemma plain_price_entry: "plain priceData \<Longrightarrow> plain (price_entry priceData)"
  by (cases priceData)
     (auto simp: price_entry_def nullish_def plain_lookup simp del: plain.simps(1)
           split: list.splits)

lemma sanitizeNumber_returns: "plain v \<Longrightarrow> \<exists>r. sanitizeNumber v = Inr r"
proof -
  assume "plain v"
  then obtain n where "Number v = Inr n"
    using Number_returns plain_printable by blast
  then show ?thesis
    by (cases v) (auto simp: sanitizeNumber_def bindE_simps)
qed

lemma plain_pool_list: "plain info \<Longrightarrow> p \<in> set (pool_list info) \<Longrightarrow> plain p"
proof -
  assume i: "plain info" and p: "p \<in> set (pool_list info)"
  from i have "plain (opt_get info ''valuePools'')" by (rule plain_opt_get)
  with p show ?thesis
    by (cases "opt_get info ''valuePools''") (auto simp: pool_list_def)
qed

lemma extractValuePools_returns:
  assumes "plain info" and "\<forall>p \<in> set (pool_list info). p \<noteq> JNull \<and> p \<noteq> JUndefined"
  shows "\<exists>r. extractValuePools info circ = Inr r"
proof -
  have ok: "\<forall>p \<in> set (pool_list info).
      p \<noteq> JNull \<and> p \<noteq> JUndefined \<and> \<not> unprintable (opt_get p ''chainValue'')"
  proof (intro ballI conjI)
    fix p
    assume p: "p \<in> set (pool_list info)"
    from assms(2) p show "p \<noteq> JNull" and "p \<noteq> JUndefined" by auto
    from plain_pool_list [OF assms(1) p] have "plain (opt_get p ''chainValue'')"
      by (rule plain_opt_get)
    then show "\<not> unprintable (opt_get p ''chainValue'')" by (rule plain_printable)
  qed
  obtain t0 where "find_pool (pool_list info) ''transparent'' = Inr t0"
    using find_pool_returns [OF ok] by blast
  moreover obtain sp where "find_pool (pool_list info) ''sprout'' = Inr sp"
    using find_pool_returns [OF ok] by blast
  moreover obtain sa where "find_pool (pool_list info) ''sapling'' = Inr sa"
    using find_pool_returns [OF ok] by blast
  moreover obtain orc where "find_pool (pool_list info) ''orchard'' = Inr orc"
    using find_pool_returns [OF ok] by blast
  moreover obtain lb where "find_pool (pool_list info) ''lockbox'' = Inr lb"
    using find_pool_returns [OF ok] by blast
  ultimately show ?thesis
    by (simp add: extractValuePools_def Let_def bindE_simps sanitizeNumber_JNum)
qed

subsection \<open>Lemmas about the handler\<close>

lemma build_snapshot_Inr:
  assumes "build_snapshot now priceData infoData mempoolData = Inr snap"
  shows "finite_or_null (nullable (priceUsd snap))"
    and "finite_or_null (nullable (priceChange24h snap))"
    and "finite_or_null (nullable (marketCapUsd snap))"
    and "finite_or_null (nullable (marketCapChange24h snap))"
    and "finite_or_null (nullable (marketCapChangeUsd snap))"
    and "finite_or_null (nullable (circulatingSupply snap))"
    and "extractValuePools infoData (nullable (circulatingSupply snap)) = Inr (valuePools snap)"
    and "height snap = block_height infoData"
    and "mempoolSize snap = mempool_size mempoolData"
    and "timestamp snap = now"
  using assms
  unfolding build_snapshot_def Let_def bindE_Inr_iff
  by (auto dest: sanitizeNumber_Inr)

lemma build_snapshot_returns:
  assumes "plain priceData" and "plain infoData"
    and "\<forall>p \<in> set (pool_list infoData). p \<noteq> JNull \<and> p \<noteq> JUndefined"
  shows "\<exists>snap. build_snapshot now priceData infoData mempoolData = Inr snap"
proof -
  let ?e = "price_entry priceData"
  have e: "plain ?e" using assms(1) by (rule plain_price_entry)
  have f: "\<And>a b. \<exists>r. sanitizeNumber (nullish (opt_get ?e a) (opt_get ?e b)) = Inr r"
    by (intro sanitizeNumber_returns plain_nullish plain_opt_get e)
  have g: "\<And>a. \<exists>r. sanitizeNumber (nullish (opt_get ?e a) JNull) = Inr r"
    by (intro sanitizeNumber_returns plain_nullish plain_opt_get e) simp
  obtain r1 where r1:
    "sanitizeNumber (nullish (opt_get ?e ''current_price'') (opt_get ?e ''usd'')) = Inr r1"
    using f by blast
  obtain r2 where r2:
    "sanitizeNumber (nullish (opt_get ?e ''price_change_percentage_24h'')
        (opt_get ?e ''usd_24h_change'')) = Inr r2"
    using f by blast
  obtain r3 where r3:
    "sanitizeNumber (nullish (opt_get ?e ''market_cap'') (opt_get ?e ''usd_market_cap'')) = Inr r3"
    using f by blast
  obtain r4 where r4:
    "sanitizeNumber (nullish (opt_get ?e ''market_cap_change_percentage_24h'') JNull) = Inr r4"
    using g by blast
  obtain r5 where r5:
    "sanitizeNumber (nullish (opt_get ?e ''market_cap_change_24h'') JNull) = Inr r5"
    using g by blast
  obtain r6 where r6:
    "sanitizeNumber (nullish (opt_get ?e ''circulating_supply'') JNull) = Inr r6"
    using g by blast
  obtain pools where "extractValuePools infoData (nullable r6) = Inr pools"
    using extractValuePools_returns [OF assms(2,3)] by blast
  with r1 r2 r3 r4 r5 r6 show ?thesis
    by (simp add: build_snapshot_def Let_def bindE_simps)
qed

lemma status_handler_Snapshot:
  "body (status_handler now price info mempool) = Snapshot snap \<Longrightarrow>
     \<exists>priceData infoData.
       price = Inr priceData \<and> info = Inr infoData \<and>
       build_snapshot now priceData infoData
         (case mempool of Inl err \<Rightarrow> JNull | Inr mempoolData \<Rightarrow> mempoolData) = Inr snap"
  unfolding status_handler_def
  by (cases price; cases info) (auto simp: bindE_simps split: sum.splits)

text \<open>
  The mempool value reaches the snapshot in one field only, and no step that can raise
  reads it.
\<close>

lemma build_snapshot_mempool:
  "build_snapshot now priceData infoData m =
     map_sum (\<lambda>e. e) (\<lambda>snap. snap\<lparr> mempoolSize := mempool_size m \<rparr>)
       (build_snapshot now priceData infoData JNull)"
  unfolding build_snapshot_def Let_def bindE_map_sum
  by simp

lemma attempt_mempool:
  "bindE price (\<lambda>priceData. bindE info (\<lambda>infoData. build_snapshot now priceData infoData m)) =
     map_sum (\<lambda>e. e) (\<lambda>snap. snap\<lparr> mempoolSize := mempool_size m \<rparr>)
       (bindE price (\<lambda>priceData. bindE info (\<lambda>infoData.
          build_snapshot now priceData infoData JNull)))"
  unfolding bindE_map_sum
  by (subst build_snapshot_mempool) (rule refl)

lemma status_handler_mempool:
  "status (status_handler now price info mempool) = status (status_handler now price info (Inl e))"
proof -
  let ?base = "bindE price (\<lambda>priceData. bindE info (\<lambda>infoData.
          build_snapshot now priceData infoData JNull))"
  have "status (status_handler now price info mempool) =
          (case ?base of Inl err \<Rightarrow> 500 | Inr snap \<Rightarrow> 200)"
    unfolding status_handler_def
    by (subst attempt_mempool) (cases ?base; simp)
  moreover have "status (status_handler now price info (Inl e)) =
          (case ?base of Inl err \<Rightarrow> 500 | Inr snap \<Rightarrow> 200)"
    unfolding status_handler_def by (cases ?base; simp)
  ultimately show ?thesis by simp
qed

subsection \<open>Lemmas about the cache\<close>

lemma is_fresh_promise [simp]: "is_fresh ttl now (c\<lparr> promise := x \<rparr>) = is_fresh ttl now c"
  by (simp add: is_fresh_def)

lemma cache_inv_call: "cache_inv s \<Longrightarrow> cache_inv (snd (getCachedPriceData ttl now s))"
  by (auto simp: cache_inv_def getCachedPriceData_def Let_def split: option.splits)

lemma cache_inv_settle:
  "cache_inv s \<Longrightarrow> k \<in> pending s \<Longrightarrow> cache_inv (snd (settle k outcome now s))"
  by (auto simp: cache_inv_def settle_def Let_def split: option.splits sum.splits if_splits)

lemma reachable_inv: "reachable ttl s \<Longrightarrow> cache_inv s"
proof (induction rule: reachable.induct)
  case start
  show ?case by (simp add: cache_inv_def initial_def)
next
  case (call s now)
  then show ?case by (simp add: cache_inv_call)
next
  case (completion s k outcome now)
  then show ?case by (simp add: cache_inv_settle)
qed

text \<open>
  While a request is in flight and the entry is stale, callers get its promise and change
  nothing; the first caller of a stale entry with no request in flight starts one.
\<close>

lemma calls_attached:
  "promise (cache s) = Some k \<Longrightarrow> \<forall>now \<in> set nows. \<not> is_fresh ttl now (cache s) \<Longrightarrow>
     calls ttl nows s = (replicate (length nows) (Shared k), s)"
  by (induction nows) (simp_all add: getCachedPriceData_def)

lemma call_starts:
  "promise (cache s) = None \<Longrightarrow> \<not> is_fresh ttl now (cache s) \<Longrightarrow>
     getCachedPriceData ttl now s =
       (Shared (requests s),
        s\<lparr> cache := (cache s)\<lparr> promise := Some (requests s) \<rparr>,
           requests := requests s + 1,
           pending := insert (requests s) (pending s) \<rparr>)"
  by (simp add: getCachedPriceData_def Let_def)

lemma calls_stale:
  assumes inv: "cache_inv s"
    and stale: "\<forall>now \<in> set nows. \<not> is_fresh ttl now (cache s)"
    and ne: "nows \<noteq> []"
  shows "\<exists>k. calls ttl nows s = (replicate (length nows) (Shared k),
             snd (calls ttl nows s)) \<and>
           pending (snd (calls ttl nows s)) = {k} \<and>
           promise (cache (snd (calls ttl nows s))) = Some k \<and>
           data (cache (snd (calls ttl nows s))) = data (cache s) \<and>
           fetchedAt (cache (snd (calls ttl nows s))) = fetchedAt (cache s) \<and>
           requests (snd (calls ttl nows s)) = requests s + (if pending s = {} then 1 else 0)"
proof (cases "promise (cache s)")
  case (Some k)
  from calls_attached [OF Some stale] inv Some show ?thesis
    by (auto simp: cache_inv_def)
next
  case None
  from ne obtain now rest where nows: "nows = now # rest" by (cases nows) auto
  let ?k = "requests s"
  let ?s1 = "s\<lparr> cache := (cache s)\<lparr> promise := Some ?k \<rparr>,
           requests := ?k + 1, pending := insert ?k (pending s) \<rparr>"
  from stale nows have first: "getCachedPriceData ttl now s = (Shared ?k, ?s1)"
    by (simp add: call_starts [OF None])
  have "promise (cache ?s1) = Some ?k" by simp
  moreover from stale nows have "\<forall>t \<in> set rest. \<not> is_fresh ttl t (cache ?s1)" by simp
  ultimately have rest: "calls ttl rest ?s1 = (replicate (length rest) (Shared ?k), ?s1)"
    by (rule calls_attached)
  from inv None have "pending s = {}" by (simp add: cache_inv_def)
  with first rest nows show ?thesis by simp
qed

lemma received_shared:
  "map (received k settled) (replicate n (Shared k)) = replicate n (Some settled)"
  by (induction n) simp_all

lemma calls_initial:
  "nows \<noteq> [] \<Longrightarrow>
     calls ttl nows initial =
       (replicate (length nows) (Shared 0),
        \<lparr> cache = \<lparr> data = JNull, fetchedAt = 0, promise = Some 0 \<rparr>, requests = 1, pending = {0} \<rparr>)"
proof (cases nows)
  case Nil
  assume "nows \<noteq> []"
  with Nil show ?thesis by simp
next
  case (Cons now rest)
  let ?s1 = "\<lparr> cache = \<lparr> data = JNull, fetchedAt = 0, promise = Some 0 \<rparr>, requests = 1, pending = {0::nat} \<rparr>"
  have "calls ttl rest ?s1 = (replicate (length rest) (Shared 0), ?s1)"
    by (rule calls_attached) (simp_all add: is_fresh_def)
  with Cons show ?thesis
    by (simp add: getCachedPriceData_def is_fresh_def initial_def)
qed

section \<open>The value pool reconciler\<close>

text \<open>
  \<open>extractValuePools\<close> raises on some payloads and then returns no record. Each statement
  below has two parts: the function returns a record on every payload in which no object
  has a member named \<open>toString\<close> and whose pool list holds no \<open>null\<close>; and every record
  it returns, on any payload, has the property. Equality of numbers is identity of values:
  \<open>NaN\<close> is equal to itself here, where \<open>===\<close> would say otherwise.
\<close>

text \<open>
  Claim C9. For every info payload and every circulating supply, the \<open>shielded\<close> field of
  the returned record is the sum \<open>sprout + sapling + orchard\<close> of its fields, added in
  this order.
\<close>

theorem shielded_is_sum:
  "(plain info \<and> (\<forall>p \<in> set (pool_list info). p \<noteq> JNull \<and> p \<noteq> JUndefined) \<longrightarrow>
      (\<exists>returned. extractValuePools info circ = Inr returned))
   \<and> (extractValuePools info circ = Inr r \<longrightarrow>
        shielded r = jsadd (jsadd (sprout r) (sapling r)) (orchard r))"
proof (intro conjI impI)
  assume "plain info \<and> (\<forall>p \<in> set (pool_list info). p \<noteq> JNull \<and> p \<noteq> JUndefined)"
  then show "\<exists>returned. extractValuePools info circ = Inr returned"
    by (intro extractValuePools_returns) simp_all
next
  assume "extractValuePools info circ = Inr r"
  then show "shielded r = jsadd (jsadd (sprout r) (sapling r)) (orchard r)"
    by (rule extractValuePools_Inr)
qed

text \<open>
  At a payload whose sapling value is the string \<open>2\<close>, whose orchard value is \<open>null\<close>
  and whose sprout value is one and a half. The sum is a sum of doubles: with the
  sprout value \<open>2 ^ 53 = 9007199254740992\<close> and the sapling value 3, \<open>shielded\<close> is
  \<open>2 ^ 53 + 4\<close>, the double nearest to \<open>2 ^ 53 + 3\<close>, and with the supply \<open>2 ^ 53 + 4\<close>
  nothing is left over for the transparent pool.
\<close>

theorem shielded_is_sum_witness:
  "plain (info_payload (JNum (Fin 5)) (JNum (Fin (3 / 2))) (JStr ''2'') JNull (JNum (Fin 4)))
   \<and> extractValuePools
       (info_payload (JNum (Fin 5)) (JNum (Fin (3 / 2))) (JStr ''2'') JNull (JNum (Fin 4))) JNull
     = Inr \<lparr> transparent = Fin 5, sprout = Fin (3 / 2), sapling = Fin 2, orchard = Fin 0,
             lockbox = Fin 4, shielded = Fin (7 / 2), totalChain = Fin (25 / 2) \<rparr>
   \<and> Fin (7 / 2) = jsadd (jsadd (Fin (3 / 2)) (Fin 2)) (Fin 0)
   \<and> extractValuePools
       (JObj [(''valuePools'',
          JArr [pool ''sprout'' (JNum (Fin 9007199254740992)), pool ''sapling'' (JNum (Fin 3))])])
       (JNum (Fin 9007199254740996))
     = Inr \<lparr> transparent = Fin 0, sprout = Fin 9007199254740992, sapling = Fin 3,
             orchard = Fin 0, lockbox = Fin 0, shielded = Fin 9007199254740996,
             totalChain = Fin 9007199254740996 \<rparr>
   \<and> jsadd (Fin 9007199254740992) (Fin 3) = Fin 9007199254740996"
  using shielded_is_sum
    [of "info_payload (JNum (Fin 5)) (JNum (Fin (3 / 2))) (JStr ''2'') JNull (JNum (Fin 4))"
        JNull
        "\<lparr> transparent = Fin 5, sprout = Fin (3 / 2), sapling = Fin 2, orchard = Fin 0,
           lockbox = Fin 4, shielded = Fin (7 / 2), totalChain = Fin (25 / 2) \<rparr>"]
  by (simp add: reconcile_eval string_eval)

text \<open>
  Claim C10. For every info payload and every circulating supply, the \<open>sprout\<close>,
  \<open>sapling\<close>, \<open>orchard\<close> and \<open>lockbox\<close> fields of the returned record are the values
  that the extraction step found for these pools; \<open>shielded\<close> is their sum and
  \<open>totalChain\<close> is chosen between the supply and the total of the extracted values.
  Inference and sanitization touch the \<open>transparent\<close> field only.
\<close>

theorem pools_frame:
  "(plain info \<and> (\<forall>p \<in> set (pool_list info). p \<noteq> JNull \<and> p \<noteq> JUndefined) \<longrightarrow>
      (\<exists>returned. extractValuePools info circ = Inr returned))
   \<and> (extractValuePools info circ = Inr r \<longrightarrow>
        find_pool (pool_list info) ''sprout'' = Inr (sprout r) \<and>
        find_pool (pool_list info) ''sapling'' = Inr (sapling r) \<and>
        find_pool (pool_list info) ''orchard'' = Inr (orchard r) \<and>
        find_pool (pool_list info) ''lockbox'' = Inr (lockbox r) \<and>
        shielded r = jsadd (jsadd (sprout r) (sapling r)) (orchard r) \<and>
        (\<exists>t0. find_pool (pool_list info) ''transparent'' = Inr t0 \<and>
           totalChain r = choose_total circ (jsadd (jsadd t0 (shielded r)) (lockbox r))))"
proof (intro conjI impI)
  assume "plain info \<and> (\<forall>p \<in> set (pool_list info). p \<noteq> JNull \<and> p \<noteq> JUndefined)"
  then show "\<exists>returned. extractValuePools info circ = Inr returned"
    by (intro extractValuePools_returns) simp_all
next
  assume r: "extractValuePools info circ = Inr r"
  from r show "find_pool (pool_list info) ''sprout'' = Inr (sprout r)"
    by (rule extractValuePools_Inr)
  from r show "find_pool (pool_list info) ''sapling'' = Inr (sapling r)"
    by (rule extractValuePools_Inr)
  from r show "find_pool (pool_list info) ''orchard'' = Inr (orchard r)"
    by (rule extractValuePools_Inr)
  from r show "find_pool (pool_list info) ''lockbox'' = Inr (lockbox r)"
    by (rule extractValuePools_Inr)
  from r show "shielded r = jsadd (jsadd (sprout r) (sapling r)) (orchard r)"
    by (rule extractValuePools_Inr)
  from r show "\<exists>t0. find_pool (pool_list info) ''transparent'' = Inr t0 \<and>
           totalChain r = choose_total circ (jsadd (jsadd t0 (shielded r)) (lockbox r))"
    by (rule extractValuePools_Inr) blast
qed

text \<open>
  At a payload where the inference replaces the transparent value 0 by 10: the four other
  pools come out as extracted. With the sprout value \<open>"1e23"\<close> and the sapling value
  \<open>"0.1"\<close>, the two fields are the doubles nearest to these literals, and \<open>shielded\<close> is
  the sprout value again: doubles of that size are \<open>2 ^ 24\<close> apart.
\<close>

theorem pools_frame_witness:
  "plain (info_payload (JNum (Fin 0)) (JNum (Fin 1)) (JNum (Fin 2)) (JNum (Fin 3)) (JNum (Fin 4)))
   \<and> extractValuePools
     (info_payload (JNum (Fin 0)) (JNum (Fin 1)) (JNum (Fin 2)) (JNum (Fin 3)) (JNum (Fin 4)))
     (JNum (Fin 20))
   = Inr \<lparr> transparent = Fin 10, sprout = Fin 1, sapling = Fin 2, orchard = Fin 3,
           lockbox = Fin 4, shielded = Fin 6, totalChain = Fin 20 \<rparr>
   \<and> find_pool
       (pool_list
          (info_payload (JNum (Fin 0)) (JNum (Fin 1)) (JNum (Fin 2)) (JNum (Fin 3))
             (JNum (Fin 4)))) ''lockbox'' = Inr (Fin 4)
   \<and> extractValuePools
       (info_payload (JNum (Fin 0)) (JStr ''1e23'') (JStr ''0.1'') (JNum (Fin 3)) (JNum (Fin 4)))
       (JNum (Fin 20))
     = Inr \<lparr> transparent = Fin 0, sprout = Fin 99999999999999991611392,
             sapling = Fin (3602879701896397 / 36028797018963968), orchard = Fin 3,
             lockbox = Fin 4, shielded = Fin 99999999999999991611392, totalChain = Fin 20 \<rparr>"
  using pools_frame
    [of "info_payload (JNum (Fin 0)) (JNum (Fin 1)) (JNum (Fin 2)) (JNum (Fin 3)) (JNum (Fin 4))"
        "JNum (Fin 20)"
        "\<lparr> transparent = Fin 10, sprout = Fin 1, sapling = Fin 2, orchard = Fin 3,
           lockbox = Fin 4, shielded = Fin 6, totalChain = Fin 20 \<rparr>"]
  by (simp add: reconcile_eval string_eval)

text \<open>
  Claim C7. For every info payload and every circulating supply, the returned
  \<open>totalChain\<close> is the circulating supply when that is a finite number greater than 0,
  and otherwise \<open>transparent + shielded + lockbox\<close> of the extracted values, with
  \<open>shielded = sprout + sapling + orchard\<close>. For the pools 100, 1, 2, 3, 4 and the supply
  \<open>null\<close>, the result keeps \<open>transparent = 100\<close> and has \<open>totalChain = 110\<close>.
\<close>

theorem totalChain_choice:
  "(plain info \<and> (\<forall>p \<in> set (pool_list info). p \<noteq> JNull \<and> p \<noteq> JUndefined) \<longrightarrow>
      (\<exists>returned. extractValuePools info circ = Inr returned))
   \<and> (extractValuePools info circ = Inr r \<longrightarrow>
      (\<exists>t0 sp sa orc lb.
         find_pool (pool_list info) ''transparent'' = Inr t0 \<and>
         find_pool (pool_list info) ''sprout'' = Inr sp \<and>
         find_pool (pool_list info) ''sapling'' = Inr sa \<and>
         find_pool (pool_list info) ''orchard'' = Inr orc \<and>
         find_pool (pool_list info) ''lockbox'' = Inr lb \<and>
         (if \<exists>x. circ = JNum (Fin x) \<and> 0 < x
          then JNum (totalChain r) = circ
          else totalChain r = jsadd (jsadd t0 (jsadd (jsadd sp sa) orc)) lb)))
   \<and> extractValuePools
       (info_payload (JNum (Fin 100)) (JNum (Fin 1)) (JNum (Fin 2)) (JNum (Fin 3))
          (JNum (Fin 4))) JNull
     = Inr \<lparr> transparent = Fin 100, sprout = Fin 1, sapling = Fin 2, orchard = Fin 3,
             lockbox = Fin 4, shielded = Fin 6, totalChain = Fin 110 \<rparr>"
proof (intro conjI impI)
  assume "plain info \<and> (\<forall>p \<in> set (pool_list info). p \<noteq> JNull \<and> p \<noteq> JUndefined)"
  then show "\<exists>returned. extractValuePools info circ = Inr returned"
    by (intro extractValuePools_returns) simp_all
next
  assume "extractValuePools info circ = Inr r"
  then obtain t0 where
    f: "find_pool (pool_list info) ''transparent'' = Inr t0"
       "find_pool (pool_list info) ''sprout'' = Inr (sprout r)"
       "find_pool (pool_list info) ''sapling'' = Inr (sapling r)"
       "find_pool (pool_list info) ''orchard'' = Inr (orchard r)"
       "find_pool (pool_list info) ''lockbox'' = Inr (lockbox r)"
    and s: "shielded r = jsadd (jsadd (sprout r) (sapling r)) (orchard r)"
    and t: "totalChain r = choose_total circ (jsadd (jsadd t0 (shielded r)) (lockbox r))"
    by (rule extractValuePools_Inr)
  have "if \<exists>x. circ = JNum (Fin x) \<and> 0 < x
        then JNum (totalChain r) = circ
        else totalChain r =
          jsadd (jsadd t0 (jsadd (jsadd (sprout r) (sapling r)) (orchard r))) (lockbox r)"
    unfolding t s choose_total_cases by auto
  with f show "\<exists>t0 sp sa orc lb.
         find_pool (pool_list info) ''transparent'' = Inr t0 \<and>
         find_pool (pool_list info) ''sprout'' = Inr sp \<and>
         find_pool (pool_list info) ''sapling'' = Inr sa \<and>
         find_pool (pool_list info) ''orchard'' = Inr orc \<and>
         find_pool (pool_list info) ''lockbox'' = Inr lb \<and>
         (if \<exists>x. circ = JNum (Fin x) \<and> 0 < x
          then JNum (totalChain r) = circ
          else totalChain r = jsadd (jsadd t0 (jsadd (jsadd sp sa) orc)) lb)"
    by blast
next
  show "extractValuePools
       (info_payload (JNum (Fin 100)) (JNum (Fin 1)) (JNum (Fin 2)) (JNum (Fin 3))
          (JNum (Fin 4))) JNull
     = Inr \<lparr> transparent = Fin 100, sprout = Fin 1, sapling = Fin 2, orchard = Fin 3,
             lockbox = Fin 4, shielded = Fin 6, totalChain = Fin 110 \<rparr>"
    by (simp add: reconcile_eval)
qed

text \<open>
  At a supply of 21 the total is the supply; at the supplies 0 and \<open>Infinity\<close> it is the
  total of the pools, 15. The total of the pools can overflow: with the sprout and
  sapling values \<open>2 ^ 1023\<close> and no supply, \<open>shielded\<close> and \<open>totalChain\<close> are \<open>Infinity\<close>.
\<close>

theorem totalChain_choice_witness:
  "plain (info_payload (JNum (Fin 5)) (JNum (Fin 1)) (JNum (Fin 2)) (JNum (Fin 3)) (JNum (Fin 4)))
   \<and> extractValuePools
     (info_payload (JNum (Fin 5)) (JNum (Fin 1)) (JNum (Fin 2)) (JNum (Fin 3)) (JNum (Fin 4)))
     (JNum (Fin 21))
   = Inr \<lparr> transparent = Fin 5, sprout = Fin 1, sapling = Fin 2, orchard = Fin 3,
           lockbox = Fin 4, shielded = Fin 6, totalChain = Fin 21 \<rparr>
   \<and> extractValuePools
     (info_payload (JNum (Fin 5)) (JNum (Fin 1)) (JNum (Fin 2)) (JNum (Fin 3)) (JNum (Fin 4)))
     (JNum (Fin 0))
   = Inr \<lparr> transparent = Fin 5, sprout = Fin 1, sapling = Fin 2, orchard = Fin 3,
           lockbox = Fin 4, shielded = Fin 6, totalChain = Fin 15 \<rparr>
   \<and> extractValuePools
     (info_payload (JNum (Fin 5)) (JNum (Fin 1)) (JNum (Fin 2)) (JNum (Fin 3)) (JNum (Fin 4)))
     (JNum PInf)
   = Inr \<lparr> transparent = Fin 5, sprout = Fin 1, sapling = Fin 2, orchard = Fin 3,
           lockbox = Fin 4, shielded = Fin 6, totalChain = Fin 15 \<rparr>
   \<and> extractValuePools
     (info_payload (JNum (Fin 5)) (JNum (Fin (2 ^ 1023))) (JNum (Fin (2 ^ 1023))) (JNum (Fin 0))
        (JNum (Fin 0))) JNull
   = Inr \<lparr> transparent = Fin 5, sprout = Fin (2 ^ 1023), sapling = Fin (2 ^ 1023),
           orchard = Fin 0, lockbox = Fin 0, shielded = PInf, totalChain = PInf \<rparr>"
  using totalChain_choice
    [of "info_payload (JNum (Fin 5)) (JNum (Fin 1)) (JNum (Fin 2)) (JNum (Fin 3)) (JNum (Fin 4))"
        "JNum (Fin 21)"
        "\<lparr> transparent = Fin 5, sprout = Fin 1, sapling = Fin 2, orchard = Fin 3,
           lockbox = Fin 4, shielded = Fin 6, totalChain = Fin 21 \<rparr>"]
  by (simp add: reconcile_eval)

text \<open>
  Claim C2, as amended. Let \<open>t0\<close> be the extracted transparent value. When \<open>t0\<close> is
  zero (also: missing), \<open>NaN\<close> or negative, \<open>totalChain\<close> is finite, and
  \<open>inferred = totalChain - shielded - lockbox\<close> is finite and greater than 0, the returned
  transparent is \<open>inferred\<close>. In every other case it is \<open>t0\<close> itself when \<open>t0\<close> is
  finite (0 for a zero or missing value, the negative value for a negative one), and 0
  when \<open>t0\<close> is not finite. For the pools 0, 1, 2, 3, 4 and the supply 20, the result has
  \<open>transparent = 10\<close>, \<open>shielded = 6\<close> and \<open>totalChain = 20\<close>.
\<close>

theorem transparent_inference:
  "(plain info \<and> (\<forall>p \<in> set (pool_list info). p \<noteq> JNull \<and> p \<noteq> JUndefined) \<longrightarrow>
      (\<exists>returned. extractValuePools info circ = Inr returned))
   \<and> (extractValuePools info circ = Inr r \<and>
    find_pool (pool_list info) ''transparent'' = Inr t0 \<longrightarrow>
      transparent r =
        (let inferred = jssub (jssub (totalChain r) (shielded r)) (lockbox r) in
         if (t0 = Fin 0 \<or> t0 = NaN \<or> js_lt t0 (Fin 0)) \<and> finite_num (totalChain r) \<and>
            finite_num inferred \<and> js_gt inferred (Fin 0)
         then inferred
         else if finite_num t0 then t0 else Fin 0))
   \<and> extractValuePools
       (info_payload (JNum (Fin 0)) (JNum (Fin 1)) (JNum (Fin 2)) (JNum (Fin 3))
          (JNum (Fin 4))) (JNum (Fin 20))
     = Inr \<lparr> transparent = Fin 10, sprout = Fin 1, sapling = Fin 2, orchard = Fin 3,
             lockbox = Fin 4, shielded = Fin 6, totalChain = Fin 20 \<rparr>"
proof (intro conjI impI)
  assume "plain info \<and> (\<forall>p \<in> set (pool_list info). p \<noteq> JNull \<and> p \<noteq> JUndefined)"
  then show "\<exists>returned. extractValuePools info circ = Inr returned"
    by (intro extractValuePools_returns) simp_all
next
  assume a: "extractValuePools info circ = Inr r \<and>
    find_pool (pool_list info) ''transparent'' = Inr t0"
  then obtain t0' where
    f: "find_pool (pool_list info) ''transparent'' = Inr t0'"
    and t: "transparent r =
       (let t1 = infer_transparent t0' (totalChain r) (shielded r) (lockbox r)
        in if finite_num t1 then t1 else Fin 0)"
    by (blast elim: extractValuePools_Inr)
  from f a have [simp]: "t0' = t0" by simp
  show "transparent r =
        (let inferred = jssub (jssub (totalChain r) (shielded r)) (lockbox r) in
         if (t0 = Fin 0 \<or> t0 = NaN \<or> js_lt t0 (Fin 0)) \<and> finite_num (totalChain r) \<and>
            finite_num inferred \<and> js_gt inferred (Fin 0)
         then inferred
         else if finite_num t0 then t0 else Fin 0)"
    unfolding t infer_transparent_def needs_inference_iff Let_def by auto
next
  show "extractValuePools
       (info_payload (JNum (Fin 0)) (JNum (Fin 1)) (JNum (Fin 2)) (JNum (Fin 3))
          (JNum (Fin 4))) (JNum (Fin 20))
     = Inr \<lparr> transparent = Fin 10, sprout = Fin 1, sapling = Fin 2, orchard = Fin 3,
             lockbox = Fin 4, shielded = Fin 6, totalChain = Fin 20 \<rparr>"
    by (simp add: reconcile_eval)
qed

text \<open>
  At a payload without a transparent record, with the supply 12: the transparent value is
  inferred as \<open>12 - 2 - 3\<close>. The inferred value is a difference of doubles: with the
  sprout value 1 and the supply \<open>2 ^ 53 + 2\<close> it is \<open>2 ^ 53\<close>, the even neighbour of
  \<open>2 ^ 53 + 1\<close>; with the sprout value \<open>- 2 ^ 1023\<close> and the supply \<open>2 ^ 1023\<close> it
  overflows to \<open>Infinity\<close> and is not accepted; and the transparent value \<open>"1e-400"\<close>
  underflows to 0, so that the supply 10 and the sprout value 2 infer 8.
\<close>

theorem transparent_inference_witness:
  "plain (JObj [(''valuePools'', JArr [pool ''sapling'' (JNum (Fin 2)), pool ''lockbox'' (JNum (Fin 3))])])
   \<and> extractValuePools
     (JObj [(''valuePools'', JArr [pool ''sapling'' (JNum (Fin 2)), pool ''lockbox'' (JNum (Fin 3))])])
     (JNum (Fin 12))
   = Inr \<lparr> transparent = Fin 7, sprout = Fin 0, sapling = Fin 2, orchard = Fin 0,
           lockbox = Fin 3, shielded = Fin 2, totalChain = Fin 12 \<rparr>
   \<and> find_pool
       (pool_list
          (JObj [(''valuePools'',
             JArr [pool ''sapling'' (JNum (Fin 2)), pool ''lockbox'' (JNum (Fin 3))])]))
       ''transparent'' = Inr (Fin 0)
   \<and> jssub (jssub (Fin 12) (Fin 2)) (Fin 3) = Fin 7
   \<and> extractValuePools
       (JObj [(''valuePools'', JArr [pool ''sprout'' (JNum (Fin 1))])])
       (JNum (Fin 9007199254740994))
     = Inr \<lparr> transparent = Fin 9007199254740992, sprout = Fin 1, sapling = Fin 0,
             orchard = Fin 0, lockbox = Fin 0, shielded = Fin 1,
             totalChain = Fin 9007199254740994 \<rparr>
   \<and> extractValuePools
       (JObj [(''valuePools'', JArr [pool ''sprout'' (JNum (Fin (- (2 ^ 1023))))])])
       (JNum (Fin (2 ^ 1023)))
     = Inr \<lparr> transparent = Fin 0, sprout = Fin (- (2 ^ 1023)), sapling = Fin 0,
             orchard = Fin 0, lockbox = Fin 0, shielded = Fin (- (2 ^ 1023)),
             totalChain = Fin (2 ^ 1023) \<rparr>
   \<and> extractValuePools
       (JObj [(''valuePools'',
          JArr [pool ''transparent'' (JStr ''1e-400''), pool ''sprout'' (JNum (Fin 2))])])
       (JNum (Fin 10))
     = Inr \<lparr> transparent = Fin 8, sprout = Fin 2, sapling = Fin 0, orchard = Fin 0,
             lockbox = Fin 0, shielded = Fin 2, totalChain = Fin 10 \<rparr>"
  using transparent_inference
    [of "JObj [(''valuePools'',
           JArr [pool ''sapling'' (JNum (Fin 2)), pool ''lockbox'' (JNum (Fin 3))])]"
        "JNum (Fin 12)"
        "\<lparr> transparent = Fin 7, sprout = Fin 0, sapling = Fin 2, orchard = Fin 0,
           lockbox = Fin 3, shielded = Fin 2, totalChain = Fin 12 \<rparr>"
        "Fin 0"]
  by (simp add: reconcile_eval string_eval)

text \<open>
  The claim as the specification words it ends "otherwise the returned transparent is 0".
  With the pools -1, 1, 2, 3, 4 and the supply 5, the extracted transparent is negative,
  \<open>totalChain = 5\<close> is finite, \<open>inferred = 5 - 6 - 4 = -5\<close> is not accepted, and the
  returned transparent is -1: the source assigns \<open>transparent\<close> only when the inferred
  value is accepted, and \<open>sanitizeNumber\<close> keeps a finite number.
\<close>

theorem transparent_inference_counterexample:
  "find_pool
     (pool_list (info_payload (JNum (Fin (- 1))) (JNum (Fin 1)) (JNum (Fin 2)) (JNum (Fin 3))
        (JNum (Fin 4)))) ''transparent'' = Inr (Fin (- 1))
   \<and> js_lt (Fin (- 1)) (Fin 0)
   \<and> jssub (jssub (Fin 5) (Fin 6)) (Fin 4) = Fin (- 5)
   \<and> extractValuePools
       (info_payload (JNum (Fin (- 1))) (JNum (Fin 1)) (JNum (Fin 2)) (JNum (Fin 3))
          (JNum (Fin 4))) (JNum (Fin 5))
     = Inr \<lparr> transparent = Fin (- 1), sprout = Fin 1, sapling = Fin 2, orchard = Fin 3,
             lockbox = Fin 4, shielded = Fin 6, totalChain = Fin 5 \<rparr>
   \<and> Fin (- 1) \<noteq> Fin 0"
  by (simp add: reconcile_eval)

text \<open>
  Claim C3, as amended. For each pool name, when the extraction step returns a number
  \<open>n\<close>: if no record of the list has that \<open>id\<close>, \<open>n\<close> is 0; otherwise, with the first
  such record, \<open>n\<close> is its \<open>chainValue\<close> when that is a number, 0 when it is missing or
  \<open>null\<close>, and \<open>Number(chainValue)\<close> for any other value (1 for \<open>true\<close>, \<open>NaN\<close> for a
  string that is not a numeric literal). The step returns whenever the list holds no
  \<open>null\<close> and every chain value has a primitive value.
\<close>

theorem find_pool_value:
  "(find_pool vp ident = Inr n \<longrightarrow>
      (case List.find (\<lambda>p. opt_get p ''id'' = JStr ident) vp of
         None \<Rightarrow> n = Fin 0
       | Some p \<Rightarrow>
           (case opt_get p ''chainValue'' of
              JNum x \<Rightarrow> n = x
            | JNull \<Rightarrow> n = Fin 0
            | JUndefined \<Rightarrow> n = Fin 0
            | v \<Rightarrow> Number v = Inr n)))
   \<and> ((\<forall>p \<in> set vp. p \<noteq> JNull \<and> p \<noteq> JUndefined \<and> \<not> unprintable (opt_get p ''chainValue''))
        \<longrightarrow> (\<exists>m. find_pool vp ident = Inr m))"
proof (intro conjI impI)
  assume "find_pool vp ident = Inr n"
  then obtain q where q: "Array_find ident vp = Inr q"
    and n: "Number (nullish (opt_get q ''chainValue'') (JNum (Fin 0))) = Inr n"
    by (auto simp: find_pool_def bindE_Inr_iff)
  show "case List.find (\<lambda>p. opt_get p ''id'' = JStr ident) vp of
         None \<Rightarrow> n = Fin 0
       | Some p \<Rightarrow>
           (case opt_get p ''chainValue'' of
              JNum x \<Rightarrow> n = x
            | JNull \<Rightarrow> n = Fin 0
            | JUndefined \<Rightarrow> n = Fin 0
            | v \<Rightarrow> Number v = Inr n)"
  proof (cases "List.find (\<lambda>p. opt_get p ''id'' = JStr ident) vp")
    case None
    with Array_find_first [OF q] have "q = JUndefined" by simp
    with n None show ?thesis by (simp add: nullish_def)
  next
    case (Some p)
    with Array_find_first [OF q] have "q = p" by simp
    with n Some show ?thesis
      by (cases "opt_get p ''chainValue''") (simp_all add: nullish_def)
  qed
next
  assume "\<forall>p \<in> set vp. p \<noteq> JNull \<and> p \<noteq> JUndefined \<and> \<not> unprintable (opt_get p ''chainValue'')"
  then show "\<exists>m. find_pool vp ident = Inr m" by (rule find_pool_returns)
qed

text \<open>
  At a list with two sprout records behind an orchard record and an empty object: the
  first sprout record counts; a numeric string converts; a pool without a record is 0.
  A numeric string converts to the double nearest to its literal: \<open>"1e400"\<close> to
  \<open>Infinity\<close>, \<open>"1e-400"\<close> to 0, \<open>"1e23"\<close> to 99999999999999991611392; and the white
  space trimmed from it includes the code units U+FEFF and U+2028.
\<close>

theorem find_pool_value_witness:
  "find_pool [pool ''orchard'' (JStr ''12.5''), JObj [], pool ''sprout'' (JNum (Fin 7)),
       pool ''sprout'' (JNum (Fin 8))] ''sprout'' = Inr (Fin 7)
   \<and> find_pool [pool ''orchard'' (JStr ''12.5'')] ''orchard'' = Inr (Fin (25 / 2))
   \<and> find_pool [pool ''orchard'' (JStr ''12.5'')] ''sprout'' = Inr (Fin 0)
   \<and> find_pool [pool ''sprout'' (JStr ''1e400'')] ''sprout'' = Inr PInf
   \<and> find_pool [pool ''sprout'' (JStr ''1e-400'')] ''sprout'' = Inr (Fin 0)
   \<and> find_pool [pool ''sprout'' (JStr ''1e23'')] ''sprout''
       = Inr (Fin 99999999999999991611392)
   \<and> find_pool [pool ''sprout'' (JString ([65279, 32] @ ascii ''12'' @ [8232]))] ''sprout''
       = Inr (Fin 12)"
  using find_pool_value [of "[pool ''orchard'' (JStr ''12.5''), JObj [], pool ''sprout'' (JNum (Fin 7)),
       pool ''sprout'' (JNum (Fin 8))]" "''sprout''" "Fin 7"]
     find_pool_value [of "[pool ''orchard'' (JStr ''12.5'')]" "''orchard''"]
  by (simp add: reconcile_eval string_eval)

text \<open>
  The claim as the specification words it has the step yield 0 for every chain value that
  is not numeric, never \<open>NaN\<close>, and never fail. The chain value \<open>true\<close> yields 1, the
  string \<open>n/a\<close> yields \<open>NaN\<close>, and a pool list \<open>[null]\<close> makes the step raise: the
  default \<open>?? 0\<close> of the source stands in for a missing or \<open>null\<close> field only.
\<close>

theorem find_pool_value_counterexample:
  "find_pool [pool ''sprout'' (JBool True)] ''sprout'' = Inr (Fin 1)
   \<and> find_pool [pool ''sprout'' (JStr ''n/a'')] ''sprout'' = Inr NaN
   \<and> find_pool [JNull] ''sprout'' = Inl TypeError"
  by (simp add: reconcile_eval string_eval)

section \<open>The status handler\<close>

text \<open>
  Claim C1, as amended. In every snapshot that the handler sends, \<open>priceUsd\<close>,
  \<open>priceChange24h\<close>, \<open>marketCapUsd\<close>, \<open>marketCapChange24h\<close>, \<open>marketCapChangeUsd\<close>
  and \<open>circulatingSupply\<close> are each a finite number or \<open>null\<close>, and
  \<open>valuePools.transparent\<close> is a finite number. These are the fields that pass through
  \<open>sanitizeNumber\<close>.
\<close>

theorem snapshot_sanitized:
  "body (status_handler now price info mempool) = Snapshot snap \<Longrightarrow>
     finite_or_null (nullable (priceUsd snap)) \<and>
     finite_or_null (nullable (priceChange24h snap)) \<and>
     finite_or_null (nullable (marketCapUsd snap)) \<and>
     finite_or_null (nullable (marketCapChange24h snap)) \<and>
     finite_or_null (nullable (marketCapChangeUsd snap)) \<and>
     finite_or_null (nullable (circulatingSupply snap)) \<and>
     finite_num (transparent (valuePools snap))"
proof -
  assume "body (status_handler now price info mempool) = Snapshot snap"
  then obtain priceData infoData m where
    b: "build_snapshot now priceData infoData m = Inr snap"
    by (blast dest: status_handler_Snapshot)
  from build_snapshot_Inr(7) [OF b] have "finite_num (transparent (valuePools snap))"
    by (rule transparent_finite)
  with build_snapshot_Inr(1-6) [OF b] show ?thesis by simp
qed

text \<open>
  At a price entry with a numeric string, a string that is no number and a missing field,
  with the mempool fetch failed.
\<close>

theorem snapshot_sanitized_witness:
  "status_handler 7
     (Inr (JArr [JObj [(''current_price'', JNum (Fin 40)), (''market_cap'', JStr ''6.5e8''),
                       (''price_change_percentage_24h'', JStr ''n/a''),
                       (''circulating_supply'', JNum (Fin 16))]]))
     (Inr (JObj [(''blocks'', JNum (Fin 811)),
                 (''valuePools'', JArr [pool ''sapling'' (JNum (Fin 2)), pool ''lockbox'' (JNum PInf)])]))
     (Inl (UpstreamError ''timeout''))
   = \<lparr> status = 200,
       body = Snapshot
         \<lparr> timestamp = 7, priceUsd = Some (Fin 40), priceChange24h = None,
           marketCapUsd = Some (Fin 650000000),
           marketCapChange24h = None, marketCapChangeUsd = None,
           circulatingSupply = Some (Fin 16),
           height = JNum (Fin 811), mempoolSize = JNum (Fin 0),
           valuePools =
             \<lparr> transparent = Fin 0, sprout = Fin 0, sapling = Fin 2, orchard = Fin 0,
               lockbox = PInf, shielded = Fin 2, totalChain = Fin 16 \<rparr> \<rparr> \<rparr>
   \<and> finite_or_null (nullable (Some (Fin 650000000)))
   \<and> finite_or_null (nullable None)"
proof -
  have h: "status_handler 7
     (Inr (JArr [JObj [(''current_price'', JNum (Fin 40)), (''market_cap'', JStr ''6.5e8''),
                       (''price_change_percentage_24h'', JStr ''n/a''),
                       (''circulating_supply'', JNum (Fin 16))]]))
     (Inr (JObj [(''blocks'', JNum (Fin 811)),
                 (''valuePools'', JArr [pool ''sapling'' (JNum (Fin 2)), pool ''lockbox'' (JNum PInf)])]))
     (Inl (UpstreamError ''timeout''))
   = \<lparr> status = 200,
       body = Snapshot
         \<lparr> timestamp = 7, priceUsd = Some (Fin 40), priceChange24h = None,
           marketCapUsd = Some (Fin 650000000),
           marketCapChange24h = None, marketCapChangeUsd = None,
           circulatingSupply = Some (Fin 16),
           height = JNum (Fin 811), mempoolSize = JNum (Fin 0),
           valuePools =
             \<lparr> transparent = Fin 0, sprout = Fin 0, sapling = Fin 2, orchard = Fin 0,
               lockbox = PInf, shielded = Fin 2, totalChain = Fin 16 \<rparr> \<rparr> \<rparr>"
    by (simp add: handler_eval reconcile_eval string_eval)
  from h have b: "body (status_handler 7
     (Inr (JArr [JObj [(''current_price'', JNum (Fin 40)), (''market_cap'', JStr ''6.5e8''),
                       (''price_change_percentage_24h'', JStr ''n/a''),
                       (''circulating_supply'', JNum (Fin 16))]]))
     (Inr (JObj [(''blocks'', JNum (Fin 811)),
                 (''valuePools'', JArr [pool ''sapling'' (JNum (Fin 2)), pool ''lockbox'' (JNum PInf)])]))
     (Inl (UpstreamError ''timeout'')))
   = Snapshot
         \<lparr> timestamp = 7, priceUsd = Some (Fin 40), priceChange24h = None,
           marketCapUsd = Some (Fin 650000000),
           marketCapChange24h = None, marketCapChangeUsd = None,
           circulatingSupply = Some (Fin 16),
           height = JNum (Fin 811), mempoolSize = JNum (Fin 0),
           valuePools =
             \<lparr> transparent = Fin 0, sprout = Fin 0, sapling = Fin 2, orchard = Fin 0,
               lockbox = PInf, shielded = Fin 2, totalChain = Fin 16 \<rparr> \<rparr>"
    by simp
  from snapshot_sanitized [OF b] h show ?thesis by simp
qed

text \<open>
  The claim as the specification words it covers \<open>height\<close>, \<open>mempoolSize\<close> and every
  field of \<open>valuePools\<close> as well. The handler copies \<open>height\<close> and the \<open>size\<close> of a
  mempool object from the payloads as they are, and the pools other than \<open>transparent\<close>
  are not sanitized: with the block height and the mempool size sent as strings and the
  chain values as \<open>n/a\<close>, the snapshot holds two strings and six \<open>NaN\<close>. (\<open>res.json\<close>
  prints \<open>NaN\<close> as \<open>null\<close>; a string stays a string.)
\<close>

theorem snapshot_sanitized_counterexample:
  "status_handler 7 (Inr (JArr []))
     (Inr (JObj [(''blocks'', JStr ''811''),
                 (''valuePools'',
                    JArr [pool ''sprout'' (JStr ''n/a''), pool ''sapling'' (JStr ''n/a''),
                          pool ''orchard'' (JStr ''n/a''), pool ''lockbox'' (JStr ''n/a'')])]))
     (Inr (JObj [(''size'', JStr ''12'')]))
   = \<lparr> status = 200,
       body = Snapshot
         \<lparr> timestamp = 7, priceUsd = None, priceChange24h = None, marketCapUsd = None,
           marketCapChange24h = None, marketCapChangeUsd = None, circulatingSupply = None,
           height = JStr ''811'', mempoolSize = JStr ''12'',
           valuePools =
             \<lparr> transparent = Fin 0, sprout = NaN, sapling = NaN, orchard = NaN,
               lockbox = NaN, shielded = NaN, totalChain = NaN \<rparr> \<rparr> \<rparr>
   \<and> \<not> finite_or_null (JStr ''811'')
   \<and> \<not> finite_or_null (JStr ''12'')
   \<and> \<not> finite_or_null (JNum NaN)"
  by (simp add: handler_eval reconcile_eval string_eval)

text \<open>
  Claim C8, as amended. The status of the response does not depend on the outcome of the
  mempool fetch, and a snapshot sent after a failed mempool fetch has \<open>mempoolSize = 0\<close>.
  When the price and info fetches succeed with payloads in which no object has a member
  named \<open>toString\<close> and the pool list holds no \<open>null\<close>, the handler responds 200 with
  a snapshot. When the price promise or the info fetch fails, it responds 500 with the body
  \<open>{"error": "upstream_failed"}\<close>; the price promise fails when the upstream request fails
  and the cache holds no truthy value.
\<close>

theorem mempool_best_effort:
  "status (status_handler now price info (Inl e)) = status (status_handler now price info mempool)
   \<and> (body (status_handler now price info (Inl e)) = Snapshot snap \<longrightarrow>
        mempoolSize snap = JNum (Fin 0))
   \<and> (plain priceData \<and> plain infoData \<and>
      (\<forall>p \<in> set (pool_list infoData). p \<noteq> JNull \<and> p \<noteq> JUndefined) \<longrightarrow>
        status (status_handler now (Inr priceData) (Inr infoData) mempool) = 200 \<and>
        (\<exists>full. body (status_handler now (Inr priceData) (Inr infoData) mempool) = Snapshot full))
   \<and> status_handler now (Inl e) info mempool
       = \<lparr> status = 500, body = Json (JObj [(''error'', JStr ''upstream_failed'')]) \<rparr>
   \<and> status_handler now price (Inl e) mempool
       = \<lparr> status = 500, body = Json (JObj [(''error'', JStr ''upstream_failed'')]) \<rparr>
   \<and> (\<not> truthy (data (cache s)) \<longrightarrow>
        status_handler now (fst (settle k (Inl e) t s)) info mempool
          = \<lparr> status = 500, body = Json (JObj [(''error'', JStr ''upstream_failed'')]) \<rparr>)"
proof (intro conjI impI)
  show "status (status_handler now price info (Inl e)) =
        status (status_handler now price info mempool)"
    by (rule status_handler_mempool [symmetric])
next
  assume "body (status_handler now price info (Inl e)) = Snapshot snap"
  from status_handler_Snapshot [OF this] obtain priceData infoData where
    "build_snapshot now priceData infoData JNull = Inr snap"
    by auto
  from build_snapshot_Inr(9) [OF this] show "mempoolSize snap = JNum (Fin 0)"
    by (simp add: mempool_size_def)
next
  assume a: "plain priceData \<and> plain infoData \<and>
      (\<forall>p \<in> set (pool_list infoData). p \<noteq> JNull \<and> p \<noteq> JUndefined)"
  then have "\<exists>full. build_snapshot now priceData infoData
       (case mempool of Inl err \<Rightarrow> JNull | Inr mempoolData \<Rightarrow> mempoolData) = Inr full"
    by (intro build_snapshot_returns) simp_all
  then obtain full where
    "build_snapshot now priceData infoData
       (case mempool of Inl err \<Rightarrow> JNull | Inr mempoolData \<Rightarrow> mempoolData) = Inr full" ..
  then have "status_handler now (Inr priceData) (Inr infoData) mempool
      = \<lparr> status = 200, body = Snapshot full \<rparr>"
    by (simp add: status_handler_def bindE_simps)
  then show "status (status_handler now (Inr priceData) (Inr infoData) mempool) = 200"
    and "\<exists>full. body (status_handler now (Inr priceData) (Inr infoData) mempool) = Snapshot full"
    by simp_all
next
  show "status_handler now (Inl e) info mempool
       = \<lparr> status = 500, body = Json (JObj [(''error'', JStr ''upstream_failed'')]) \<rparr>"
    by (simp add: status_handler_def bindE_simps upstream_failed_def)
next
  show "status_handler now price (Inl e) mempool
       = \<lparr> status = 500, body = Json (JObj [(''error'', JStr ''upstream_failed'')]) \<rparr>"
    by (cases price) (simp_all add: status_handler_def bindE_simps upstream_failed_def)
next
  assume "\<not> truthy (data (cache s))"
  then have "fst (settle k (Inl e) t s) = Inl e" by (simp add: settle_def Let_def)
  then show "status_handler now (fst (settle k (Inl e) t s)) info mempool
          = \<lparr> status = 500, body = Json (JObj [(''error'', JStr ''upstream_failed'')]) \<rparr>"
    by (simp add: status_handler_def bindE_simps upstream_failed_def)
qed

text \<open>
  At a price payload of one entry and an info payload without pools: 200 with
  \<open>mempoolSize = 0\<close> when the mempool fetch fails, 200 when it succeeds, 500 when the price
  promise fails.
\<close>

theorem mempool_best_effort_witness:
  "status_handler 7 (Inr quote) (Inr (JObj [(''blocks'', JNum (Fin 811))]))
     (Inl (UpstreamError ''timeout''))
   = \<lparr> status = 200,
       body = Snapshot
         \<lparr> timestamp = 7, priceUsd = Some (Fin 40), priceChange24h = None,
           marketCapUsd = None, marketCapChange24h = None, marketCapChangeUsd = None,
           circulatingSupply = None, height = JNum (Fin 811), mempoolSize = JNum (Fin 0),
           valuePools =
             \<lparr> transparent = Fin 0, sprout = Fin 0, sapling = Fin 0, orchard = Fin 0,
               lockbox = Fin 0, shielded = Fin 0, totalChain = Fin 0 \<rparr> \<rparr> \<rparr>
   \<and> status (status_handler 7 (Inr quote) (Inr (JObj [(''blocks'', JNum (Fin 811))]))
        (Inr (JArr [JStr ''a'', JStr ''b'']))) = 200
   \<and> plain quote
   \<and> plain (JObj [(''blocks'', JNum (Fin 811))])
   \<and> status_handler 7 (Inl (UpstreamError ''timeout'')) (Inr (JObj [(''blocks'', JNum (Fin 811))]))
        (Inr (JArr [JStr ''a'', JStr ''b'']))
     = \<lparr> status = 500, body = Json (JObj [(''error'', JStr ''upstream_failed'')]) \<rparr>"
  using mempool_best_effort
    [of 7 "Inr quote" "Inr (JObj [(''blocks'', JNum (Fin 811))])" "UpstreamError ''timeout''"
        "Inr (JArr [JStr ''a'', JStr ''b''])"
        "\<lparr> timestamp = 7, priceUsd = Some (Fin 40), priceChange24h = None,
           marketCapUsd = None, marketCapChange24h = None, marketCapChangeUsd = None,
           circulatingSupply = None, height = JNum (Fin 811), mempoolSize = JNum (Fin 0),
           valuePools =
             \<lparr> transparent = Fin 0, sprout = Fin 0, sapling = Fin 0, orchard = Fin 0,
               lockbox = Fin 0, shielded = Fin 0, totalChain = Fin 0 \<rparr> \<rparr>"
        quote "JObj [(''blocks'', JNum (Fin 811))]" initial 0 0]
  by (simp add: handler_eval reconcile_eval quote_def)

text \<open>
  The claim as the specification words it has the handler respond 200 whenever the price
  and info fetches succeed. With the info payload \<open>{"valuePools": [null]}\<close> all three
  fetches succeed, \<open>p.id\<close> raises in \<open>extractValuePools\<close>, and the \<open>catch\<close> clause
  responds 500.
\<close>

theorem mempool_best_effort_counterexample:
  "status_handler 7 (Inr (JArr [])) (Inr (JObj [(''valuePools'', JArr [JNull])])) (Inr (JArr []))
   = \<lparr> status = 500, body = Json (JObj [(''error'', JStr ''upstream_failed'')]) \<rparr>"
  by (simp add: handler_eval reconcile_eval)

section \<open>The price cache\<close>

text \<open>
  Claim C6, as amended. For every time to live and every state whose stored value is
  truthy and whose age is at most the time to live, a call returns the stored value,
  already resolved, and leaves the state as it is: no request is issued. Hence, from a
  stale state with no request in flight, a call, the success of its request with a truthy
  value, and a second call at most the time to live after that success issue exactly one
  request together.
\<close>

theorem cache_hit:
  "(truthy (data (cache s)) \<and> js_le (Fin (real_of_int (now - fetchedAt (cache s)))) ttl \<longrightarrow>
      getCachedPriceData ttl now s = (Resolved (data (cache s)), s))
   \<and> (promise (cache s) = None \<and> \<not> is_fresh ttl t1 (cache s) \<and> truthy v \<and>
       js_le (Fin (real_of_int (t3 - t2))) ttl \<longrightarrow>
        fst (getCachedPriceData ttl t1 s) = Shared (requests s) \<and>
        fst (settle (requests s) (Inr v) t2 (snd (getCachedPriceData ttl t1 s))) = Inr v \<and>
        fst (getCachedPriceData ttl t3
               (snd (settle (requests s) (Inr v) t2 (snd (getCachedPriceData ttl t1 s)))))
          = Resolved v \<and>
        requests (snd (getCachedPriceData ttl t3
               (snd (settle (requests s) (Inr v) t2 (snd (getCachedPriceData ttl t1 s))))))
          = requests s + 1)"
proof (intro conjI impI)
  assume "truthy (data (cache s)) \<and> js_le (Fin (real_of_int (now - fetchedAt (cache s)))) ttl"
  then show "getCachedPriceData ttl now s = (Resolved (data (cache s)), s)"
    by (simp add: getCachedPriceData_def is_fresh_def)
next
  assume a: "promise (cache s) = None \<and> \<not> is_fresh ttl t1 (cache s) \<and> truthy v \<and>
       js_le (Fin (real_of_int (t3 - t2))) ttl"
  let ?s1 = "snd (getCachedPriceData ttl t1 s)"
  let ?s2 = "snd (settle (requests s) (Inr v) t2 ?s1)"
  from a have c1: "getCachedPriceData ttl t1 s =
       (Shared (requests s),
        s\<lparr> cache := (cache s)\<lparr> promise := Some (requests s) \<rparr>,
           requests := requests s + 1,
           pending := insert (requests s) (pending s) \<rparr>)"
    by (simp add: call_starts)
  then show "fst (getCachedPriceData ttl t1 s) = Shared (requests s)" by simp
  show "fst (settle (requests s) (Inr v) t2 ?s1) = Inr v"
    by (simp add: settle_def)
  have s2: "data (cache ?s2) = v" "fetchedAt (cache ?s2) = t2" "requests ?s2 = requests s + 1"
    by (simp_all add: c1 settle_def)
  with a have hit: "getCachedPriceData ttl t3 ?s2 = (Resolved v, ?s2)"
    by (simp add: getCachedPriceData_def is_fresh_def)
  then show "fst (getCachedPriceData ttl t3 ?s2) = Resolved v" by simp
  from hit s2 show "requests (snd (getCachedPriceData ttl t3 ?s2)) = requests s + 1" by simp
qed

text \<open>
  At a time to live of 60000 ms: the value stored at time 100 is served at time 60100, and
  the two calls at 0 and 60100 issue one request.
\<close>

theorem cache_hit_witness:
  "getCachedPriceData (Fin 60000) 60100
     \<lparr> cache = \<lparr> data = quote, fetchedAt = 100, promise = None \<rparr>, requests = 1, pending = {} \<rparr>
   = (Resolved quote,
      \<lparr> cache = \<lparr> data = quote, fetchedAt = 100, promise = None \<rparr>, requests = 1, pending = {} \<rparr>)
   \<and> snd (settle 0 (Inr quote) 100 (snd (getCachedPriceData (Fin 60000) 0 initial)))
     = \<lparr> cache = \<lparr> data = quote, fetchedAt = 100, promise = None \<rparr>, requests = 1, pending = {} \<rparr>
   \<and> requests (snd (getCachedPriceData (Fin 60000) 60100
        (snd (settle 0 (Inr quote) 100 (snd (getCachedPriceData (Fin 60000) 0 initial)))))) = 1"
  using cache_hit [of "\<lparr> cache = \<lparr> data = quote, fetchedAt = 100, promise = None \<rparr>, requests = 1, pending = {} \<rparr>"
                      60100 "Fin 60000" 0 quote 60100 100]
    cache_hit [of initial 0 "Fin 60000" 0 quote 60100 100]
  by (simp add: cache_eval quote_def)

text \<open>
  The claim as the specification words it is about every state that holds a value. The
  source tests \<open>priceCache.data\<close> for truthiness: after a success whose body is the empty
  string (which \<open>normalizeJSON\<close> returns as it is), a call 100 ms later, well within the
  time to live, issues a second request.
\<close>

theorem cache_hit_counterexample:
  "snd (settle 0 (Inr (JStr '''')) 100 (snd (getCachedPriceData (Fin 60000) 0 initial)))
     = \<lparr> cache = \<lparr> data = JStr '''', fetchedAt = 100, promise = None \<rparr>, requests = 1, pending = {} \<rparr>
   \<and> js_le (Fin (real_of_int (200 - 100))) (Fin 60000)
   \<and> getCachedPriceData (Fin 60000) 200
       \<lparr> cache = \<lparr> data = JStr '''', fetchedAt = 100, promise = None \<rparr>, requests = 1, pending = {} \<rparr>
     = (Shared 1,
        \<lparr> cache = \<lparr> data = JStr '''', fetchedAt = 100, promise = Some 1 \<rparr>, requests = 2, pending = {1} \<rparr>)"
  by (simp add: cache_eval)

text \<open>
  Claim C5, as amended. When the upstream request fails and the stored value is truthy,
  the promise resolves with the stored value; a failure never changes \<open>data\<close> or
  \<open>fetchedAt\<close>. When the stored value is not truthy the promise rejects with the error;
  in particular, when the first request ever fails, every caller that waits for it
  receives the error.
\<close>

theorem failure_fallback:
  "(truthy (data (cache s)) \<longrightarrow> fst (settle k (Inl err) now s) = Inr (data (cache s)))
   \<and> data (cache (snd (settle k (Inl err) now s))) = data (cache s)
   \<and> fetchedAt (cache (snd (settle k (Inl err) now s))) = fetchedAt (cache s)
   \<and> (\<not> truthy (data (cache s)) \<longrightarrow> fst (settle k (Inl err) now s) = Inl err)
   \<and> (nows \<noteq> [] \<longrightarrow>
        map (received 0 (fst (settle 0 (Inl err) now (snd (calls ttl nows initial)))))
          (fst (calls ttl nows initial))
        = replicate (length nows) (Some (Inl err)))"
proof (intro conjI impI)
  assume "nows \<noteq> []"
  then show "map (received 0 (fst (settle 0 (Inl err) now (snd (calls ttl nows initial)))))
          (fst (calls ttl nows initial))
        = replicate (length nows) (Some (Inl err))"
    by (simp add: calls_initial settle_def received_shared)
qed (simp_all add: settle_def Let_def)

text \<open>
  At a state with a stored quote and request 1 in flight: the failure resolves with the
  quote and keeps \<open>fetchedAt = 100\<close>. And from the initial state: two callers, one failed
  request, two errors.
\<close>

theorem failure_fallback_witness:
  "settle 1 (Inl (UpstreamError ''HTTP 429'')) 70500
     \<lparr> cache = \<lparr> data = quote, fetchedAt = 100, promise = Some 1 \<rparr>, requests = 2, pending = {1} \<rparr>
   = (Inr quote,
      \<lparr> cache = \<lparr> data = quote, fetchedAt = 100, promise = None \<rparr>, requests = 2, pending = {} \<rparr>)
   \<and> map (received 0 (fst (settle 0 (Inl (UpstreamError ''HTTP 429'')) 9
             (snd (calls (Fin 60000) [5, 6] initial)))))
       (fst (calls (Fin 60000) [5, 6] initial))
     = [Some (Inl (UpstreamError ''HTTP 429'')), Some (Inl (UpstreamError ''HTTP 429''))]"
  using failure_fallback [of "\<lparr> cache = \<lparr> data = quote, fetchedAt = 100, promise = Some 1 \<rparr>, requests = 2, pending = {1} \<rparr>"
      1 "UpstreamError ''HTTP 429''" 70500 "[5, 6]" "Fin 60000"]
    failure_fallback [of initial 0 "UpstreamError ''HTTP 429''" 9 "[5, 6]" "Fin 60000"]
  by (simp add: cache_eval quote_def)

text \<open>
  The claim as the specification words it returns the last successful value after any
  prior success. After a success whose body is the empty string, the stored value is not
  truthy, and the failure of the next request rejects the promise.
\<close>

theorem failure_fallback_counterexample:
  "snd (settle 0 (Inr (JStr '''')) 100 (snd (getCachedPriceData (Fin 60000) 0 initial)))
     = \<lparr> cache = \<lparr> data = JStr '''', fetchedAt = 100, promise = None \<rparr>, requests = 1, pending = {} \<rparr>
   \<and> getCachedPriceData (Fin 60000) 70000
       \<lparr> cache = \<lparr> data = JStr '''', fetchedAt = 100, promise = None \<rparr>, requests = 1, pending = {} \<rparr>
     = (Shared 1,
        \<lparr> cache = \<lparr> data = JStr '''', fetchedAt = 100, promise = Some 1 \<rparr>, requests = 2, pending = {1} \<rparr>)
   \<and> fst (settle 1 (Inl (UpstreamError ''HTTP 429'')) 70500
        \<lparr> cache = \<lparr> data = JStr '''', fetchedAt = 100, promise = Some 1 \<rparr>, requests = 2, pending = {1} \<rparr>)
     = Inl (UpstreamError ''HTTP 429'')"
  by (simp add: cache_eval)

text \<open>
  Claim C4. In every reachable state at most one upstream request is in flight, and the
  marker holds a promise exactly when one is. When two or more callers call the cache one
  after the other while the entry is stale, with no completion between them, all of them
  get the promise of the same request \<open>k\<close>, which is the only request in flight
  afterwards; the calls issue exactly one request when none was in flight, and none
  otherwise; and whatever the outcome of request \<open>k\<close>, every caller receives the same
  settlement.
\<close>

theorem single_flight:
  "(reachable ttl s \<longrightarrow>
      finite (pending s) \<and> card (pending s) \<le> 1 \<and>
      (promise (cache s) = None \<longleftrightarrow> pending s = {}))
   \<and> (reachable ttl s \<and> 2 \<le> length nows \<and> (\<forall>now \<in> set nows. \<not> is_fresh ttl now (cache s)) \<longrightarrow>
        (\<exists>k. fst (calls ttl nows s) = replicate (length nows) (Shared k) \<and>
             pending (snd (calls ttl nows s)) = {k} \<and>
             requests (snd (calls ttl nows s)) = requests s + (if pending s = {} then 1 else 0) \<and>
             (\<forall>outcome t.
                map (received k (fst (settle k outcome t (snd (calls ttl nows s)))))
                  (fst (calls ttl nows s))
                = replicate (length nows) (Some (fst (settle k outcome t (snd (calls ttl nows s))))))))"
proof (intro conjI impI)
  assume "reachable ttl s"
  then have "cache_inv s" by (rule reachable_inv)
  then show "finite (pending s)" "card (pending s) \<le> 1"
    "(promise (cache s) = None) = (pending s = {})"
    by (auto simp: cache_inv_def split: option.splits)
next
  assume a: "reachable ttl s \<and> 2 \<le> length nows \<and> (\<forall>now \<in> set nows. \<not> is_fresh ttl now (cache s))"
  then have inv: "cache_inv s" by (blast intro: reachable_inv)
  from a have ne: "nows \<noteq> []" by auto
  from a have stale: "\<forall>now \<in> set nows. \<not> is_fresh ttl now (cache s)" by simp
  from calls_stale [OF inv stale ne] obtain k where
    k: "calls ttl nows s = (replicate (length nows) (Shared k), snd (calls ttl nows s))"
       "pending (snd (calls ttl nows s)) = {k}"
       "requests (snd (calls ttl nows s)) = requests s + (if pending s = {} then 1 else 0)"
    by blast
  from k(1) have f: "fst (calls ttl nows s) = replicate (length nows) (Shared k)"
    by (metis fst_conv)
  show "\<exists>k. fst (calls ttl nows s) = replicate (length nows) (Shared k) \<and>
             pending (snd (calls ttl nows s)) = {k} \<and>
             requests (snd (calls ttl nows s)) = requests s + (if pending s = {} then 1 else 0) \<and>
             (\<forall>outcome t.
                map (received k (fst (settle k outcome t (snd (calls ttl nows s)))))
                  (fst (calls ttl nows s))
                = replicate (length nows) (Some (fst (settle k outcome t (snd (calls ttl nows s))))))"
    using k(2,3) f by (intro exI [of _ k]) (simp add: received_shared)
qed

text \<open>
  At the state reached by a call at time 0 and the success of its request at time 100:
  three callers after the time to live share request 1.
\<close>

theorem single_flight_witness:
  "reachable (Fin 60000)
     \<lparr> cache = \<lparr> data = quote, fetchedAt = 100, promise = None \<rparr>, requests = 1, pending = {} \<rparr>
   \<and> calls (Fin 60000) [70000, 70001, 70001]
       \<lparr> cache = \<lparr> data = quote, fetchedAt = 100, promise = None \<rparr>, requests = 1, pending = {} \<rparr>
     = ([Shared 1, Shared 1, Shared 1],
        \<lparr> cache = \<lparr> data = quote, fetchedAt = 100, promise = Some 1 \<rparr>, requests = 2, pending = {1} \<rparr>)"
proof -
  let ?s = "\<lparr> cache = \<lparr> data = quote, fetchedAt = 100, promise = None \<rparr>, requests = 1, pending = {} \<rparr>"
  have "reachable (Fin 60000)
          (snd (settle 0 (Inr quote) 100 (snd (getCachedPriceData (Fin 60000) 0 initial))))"
    by (rule reachable.completion [OF reachable.call [OF reachable.start]])
       (simp add: cache_eval)
  then have r: "reachable (Fin 60000) ?s" by (simp add: cache_eval)
  have stale: "\<forall>now \<in> set [70000, 70001, 70001]. \<not> is_fresh (Fin 60000) now (cache ?s)"
    by (simp add: is_fresh_def js_le_def)
  from single_flight [of "Fin 60000" ?s "[70000, 70001, 70001]"] r stale
  show ?thesis by (simp add: cache_eval quote_def)
qed

end
